theory Spec2Isabelle
  imports Complex_Main "HOL-Library.Sublist" "HOL-Library.Char_ord" "HOL-Library.List_Lexorder"
begin

section \<open>Python values and exceptions\<close>

text \<open>
  The exceptions that the modelled methods of \<^verbatim>\<open>classes.py\<close> can raise. A method that
  mutates its receiver returns the outcome together with the receiver's state after the
  call, so that a raise leaves a visible state as well.
\<close>

datatype pyerr =
  AttributeError | ValueError | TypeError | KeyError | IndexError | AssertionError
  | OverflowError

text \<open>
  The values a custom parameter or a plain attribute can hold: \<^verbatim>\<open>None\<close>, \<^verbatim>\<open>bool\<close>,
  \<^verbatim>\<open>int\<close> (unbounded), \<^verbatim>\<open>float\<close> (a finite double, given by the real number it
  is), \<^verbatim>\<open>str\<close>/\<^verbatim>\<open>unicode\<close> (a byte string in UTF-8), \<^verbatim>\<open>list\<close>,
  \<^verbatim>\<open>tuple\<close>, \<^verbatim>\<open>dict\<close> and \<^verbatim>\<open>OrderedDict\<close> (association lists in insertion order).
\<close>

datatype pval =
    VNone
  | VBool bool
  | VInt int
  | VFloat real
  | VStr string
  | VList "pval list"
  | VTuple "pval list"
  | VDict "(string \<times> pval) list"
  | VODict "(string \<times> pval) list"

text \<open>Python truthiness, as \<^verbatim>\<open>if value:\<close> and \<^verbatim>\<open>bool(value)\<close> read it.\<close>

fun truthy :: "pval \<Rightarrow> bool" where
  "truthy VNone = False"
| "truthy (VBool b) = b"
| "truthy (VInt n) = (n \<noteq> 0)"
| "truthy (VFloat r) = (r \<noteq> 0)"
| "truthy (VStr s) = (s \<noteq> [])"
| "truthy (VList xs) = (xs \<noteq> [])"
| "truthy (VTuple xs) = (xs \<noteq> [])"
| "truthy (VDict kvs) = (kvs \<noteq> [])"
| "truthy (VODict kvs) = (kvs \<noteq> [])"

text \<open>
  \<^verbatim>\<open>xs[i]\<close> on a Python list: a negative index counts from the end, an index out of
  range raises \<^verbatim>\<open>IndexError\<close>.
\<close>

definition py_index :: "'a list \<Rightarrow> int \<Rightarrow> pyerr + 'a" where
  "py_index xs i =
     (if 0 \<le> i \<and> i < int (length xs) then Inr (xs ! nat i)
      else if i < 0 \<and> - int (length xs) \<le> i then Inr (xs ! nat (int (length xs) + i))
      else Inl IndexError)"

text \<open>\<^verbatim>\<open>sep.join(parts)\<close> on strings.\<close>

fun join :: "string \<Rightarrow> string list \<Rightarrow> string" where
  "join sep [] = []"
| "join sep [x] = x"
| "join sep (x # y # ys) = x @ sep @ join sep (y # ys)"

subsection \<open>Decimal text of integers\<close>

text \<open>
  \<^verbatim>\<open>str(n)\<close> of an integer: the decimal digits, most significant first, after a
  \<^verbatim>\<open>-\<close> when the number is negative.
\<close>

definition digit_char :: "nat \<Rightarrow> char" where
  "digit_char d = ''0123456789'' ! d"

fun str_nat :: "nat \<Rightarrow> string" where
  "str_nat n = (if n < 10 then [digit_char n] else str_nat (n div 10) @ [digit_char (n mod 10)])"

declare str_nat.simps [simp del]

definition str_int :: "int \<Rightarrow> string" where
  "str_int i = (if i < 0 then CHR ''-'' # str_nat (nat (- i)) else str_nat (nat i))"

text \<open>
  The core of \<^verbatim>\<open>int(s)\<close> for a string, base 10: surrounding ASCII whitespace is
  stripped, one sign \<^verbatim>\<open>+\<close> or \<^verbatim>\<open>-\<close> may lead, and at least one digit \<^verbatim>\<open>0\<close>..\<^verbatim>\<open>9\<close>
  must follow and nothing else. \<^verbatim>\<open>ascii_int\<close> gives the integer of such a text and
  \<^verbatim>\<open>None\<close> for every other text; what \<^verbatim>\<open>int\<close> does with the other texts is not
  decided here (see \<^verbatim>\<open>int_of_str\<close> below).
\<close>

definition is_space :: "char \<Rightarrow> bool" where
  "is_space c = (c \<in> set [CHR 0x09, CHR 0x0A, CHR 0x0B, CHR 0x0C, CHR 0x0D, CHR 0x20])"

definition is_digit :: "char \<Rightarrow> bool" where
  "is_digit c = (c \<in> set ''0123456789'')"

definition strip :: "string \<Rightarrow> string" where
  "strip s = rev (dropWhile is_space (rev (dropWhile is_space s)))"

definition digit_val :: "char \<Rightarrow> nat" where
  "digit_val c = of_char c - 48"

definition digits_val :: "string \<Rightarrow> nat" where
  "digits_val ds = foldl (\<lambda>a c. 10 * a + digit_val c) 0 ds"

definition all_digits :: "string \<Rightarrow> bool" where
  "all_digits ds = (ds \<noteq> [] \<and> list_all is_digit ds)"

definition ascii_int :: "string \<Rightarrow> int option" where
  "ascii_int s =
     (case strip s of
        [] \<Rightarrow> None
      | c # r \<Rightarrow>
          if c = CHR ''-'' then
            (if all_digits r then Some (- int (digits_val r)) else None)
          else if c = CHR ''+'' then
            (if all_digits r then Some (int (digits_val r)) else None)
          else if all_digits (c # r) then Some (int (digits_val (c # r)))
          else None)"

section \<open>Helpers of the package that \<^verbatim>\<open>classes.py\<close> imports\<close>

text \<open>
  \<^verbatim>\<open>classes.py\<close> imports \<^verbatim>\<open>needsQuotes\<close>, \<^verbatim>\<open>feature_syntax_encode\<close>,
  \<^verbatim>\<open>floatToString\<close>, \<^verbatim>\<open>writeIntlist\<close> and \<^verbatim>\<open>readIntlist\<close> from
  \<^verbatim>\<open>glyphsLib.types\<close>, \<^verbatim>\<open>Parser\<close> from \<^verbatim>\<open>glyphsLib.parser\<close> and \<^verbatim>\<open>GlyphsWriter\<close> from
  \<^verbatim>\<open>glyphsLib.writer\<close>. Their bodies are not part of the file; the model takes them as
  parameters, together with the comparisons of the wrapper types of
  \<^verbatim>\<open>glyphsLib.types\<close>: \<^verbatim>\<open>wrapper_ne d w\<close> is \<^verbatim>\<open>d != x\<close> and \<^verbatim>\<open>wrapper_eq w d\<close> is
  \<^verbatim>\<open>x == d\<close> for a plain value \<^verbatim>\<open>d\<close> and a wrapper \<^verbatim>\<open>x\<close> with \<^verbatim>\<open>x.value = w\<close>.

  The same record holds the parts of the builtins that are not written out here:
  \<^verbatim>\<open>int_of_text\<close> is \<^verbatim>\<open>int(s)\<close> for a text outside the ASCII form above (digit-group
  underscores, decimal digits and blanks beyond ASCII, where the interpreter accepts
  them, and \<^verbatim>\<open>ValueError\<close> for what it refuses); \<^verbatim>\<open>double_of_int\<close> is \<^verbatim>\<open>float(n)\<close> for
  an integer (the nearest double, or \<^verbatim>\<open>OverflowError\<close>); \<^verbatim>\<open>float_of_str\<close> is
  \<^verbatim>\<open>float(s)\<close> for a string; \<^verbatim>\<open>py_repr\<close> is the text of a float or a container.
\<close>

record externals =
  needsQuotes :: "pval \<Rightarrow> bool"
  feature_syntax_encode :: "string \<Rightarrow> string"
  floatToString :: "pval \<Rightarrow> pyerr + string"
  writeIntlist :: "pval \<Rightarrow> pyerr + string list"
  readIntlist :: "pval \<Rightarrow> pyerr + pval"
  parser_parse :: "pval \<Rightarrow> pyerr + pval"
  writeDict :: "(string \<times> pval) list \<Rightarrow> string"
  float_of_str :: "string \<Rightarrow> pyerr + real"
  py_repr :: "pval \<Rightarrow> string"
  int_of_text :: "string \<Rightarrow> pyerr + int"
  double_of_int :: "int \<Rightarrow> pyerr + real"
  wrapper_ne :: "pval \<Rightarrow> pval \<Rightarrow> bool"
  wrapper_eq :: "pval \<Rightarrow> pval \<Rightarrow> bool"

text \<open>
  \<^verbatim>\<open>int(s)\<close> of a string: the integer of a text in the ASCII form, and otherwise
  whatever the interpreter makes of the text. (A limit on the number of digits, which
  later interpreters can be set to impose, is an interpreter setting and not modelled.)
\<close>

definition int_of_str :: "externals \<Rightarrow> string \<Rightarrow> pyerr + int" where
  "int_of_str X s = (case ascii_int s of Some n \<Rightarrow> Inr n | None \<Rightarrow> int_of_text X s)"

text \<open>
  \<^verbatim>\<open>int(value)\<close>: an integer is itself, a boolean is 0 or 1, a float is truncated
  towards zero, a string is parsed, anything else raises \<^verbatim>\<open>TypeError\<close>.
\<close>

definition py_int :: "externals \<Rightarrow> pval \<Rightarrow> pyerr + int" where
  "py_int X v =
     (case v of
        VInt n \<Rightarrow> Inr n
      | VBool b \<Rightarrow> Inr (if b then 1 else 0)
      | VFloat r \<Rightarrow> Inr (if 0 \<le> r then \<lfloor>r\<rfloor> else \<lceil>r\<rceil>)
      | VStr s \<Rightarrow> int_of_str X s
      | _ \<Rightarrow> Inl TypeError)"

text \<open>\<^verbatim>\<open>str(value)\<close>, which is also what \<^verbatim>\<open>"%s" % value\<close> inserts.\<close>

definition py_str :: "externals \<Rightarrow> pval \<Rightarrow> string" where
  "py_str X v =
     (case v of
        VStr s \<Rightarrow> s
      | VInt n \<Rightarrow> str_int n
      | VBool b \<Rightarrow> (if b then ''True'' else ''False'')
      | VNone \<Rightarrow> ''None''
      | _ \<Rightarrow> py_repr X v)"

text \<open>
  \<^verbatim>\<open>float(value)\<close>: a float is itself, a boolean is 0.0 or 1.0, an integer is rounded
  to a double, a string is parsed, anything else raises \<^verbatim>\<open>TypeError\<close>.
\<close>

definition py_float :: "externals \<Rightarrow> pval \<Rightarrow> pyerr + real" where
  "py_float X v =
     (case v of
        VFloat r \<Rightarrow> Inr r
      | VInt n \<Rightarrow> double_of_int X n
      | VBool b \<Rightarrow> Inr (if b then 1 else 0)
      | VStr s \<Rightarrow> float_of_str X s
      | _ \<Rightarrow> Inl TypeError)"

section \<open>GSCustomParameter\<close>

text \<open>
  A custom parameter has a \<^verbatim>\<open>name\<close> and a stored \<^verbatim>\<open>_value\<close>; \<^verbatim>\<open>value\<close> is the
  property \<^verbatim>\<open>property(getValue, setValue)\<close>.
\<close>

record GSCustomParameter =
  cp_name :: string
  cp_value :: pval

definition CUSTOM_INT_PARAMS :: "string set" where
  "CUSTOM_INT_PARAMS = set [
     ''ascender'', ''blueShift'', ''capHeight'', ''descender'', ''hheaAscender'',
     ''hheaDescender'', ''hheaLineGap'', ''macintoshFONDFamilyID'',
     ''openTypeHeadLowestRecPPEM'', ''openTypeHheaAscender'',
     ''openTypeHheaCaretOffset'',
     ''openTypeHheaCaretSlopeRise'', ''openTypeHheaCaretSlopeRun'',
     ''openTypeHheaDescender'', ''openTypeHheaLineGap'',
     ''openTypeOS2StrikeoutPosition'', ''openTypeOS2StrikeoutSize'',
     ''openTypeOS2SubscriptXOffset'', ''openTypeOS2SubscriptXSize'',
     ''openTypeOS2SubscriptYOffset'', ''openTypeOS2SubscriptYSize'',
     ''openTypeOS2SuperscriptXOffset'', ''openTypeOS2SuperscriptXSize'',
     ''openTypeOS2SuperscriptYOffset'', ''openTypeOS2SuperscriptYSize'',
     ''openTypeOS2TypoAscender'', ''openTypeOS2TypoDescender'',
     ''openTypeOS2TypoLineGap'', ''openTypeOS2WeightClass'',
     ''openTypeOS2WidthClass'',
     ''openTypeOS2WinAscent'', ''openTypeOS2WinDescent'',
     ''openTypeVheaCaretOffset'',
     ''openTypeVheaCaretSlopeRise'', ''openTypeVheaCaretSlopeRun'',
     ''openTypeVheaVertTypoAscender'', ''openTypeVheaVertTypoDescender'',
     ''openTypeVheaVertTypoLineGap'', ''postscriptBlueFuzz'',
     ''postscriptBlueShift'',
     ''postscriptDefaultWidthX'', ''postscriptSlantAngle'',
     ''postscriptUnderlinePosition'', ''postscriptUnderlineThickness'',
     ''postscriptUniqueID'', ''postscriptWindowsCharacterSet'',
     ''shoulderHeight'',
     ''smallCapHeight'', ''typoAscender'', ''typoDescender'', ''typoLineGap'',
     ''underlinePosition'', ''underlineThickness'', ''unitsPerEm'',
     ''vheaVertAscender'',
     ''vheaVertDescender'', ''vheaVertLineGap'', ''weightClass'', ''widthClass'',
     ''winAscent'', ''winDescent'', ''xHeight'', ''year'', ''Grid Spacing'']"

definition CUSTOM_FLOAT_PARAMS :: "string set" where
  "CUSTOM_FLOAT_PARAMS = set [''postscriptBlueScale'']"

text \<open>The fourth name holds U+2019, three bytes in UTF-8.\<close>

definition CUSTOM_BOOL_PARAMS :: "string set" where
  "CUSTOM_BOOL_PARAMS = set [
     ''isFixedPitch'', ''postscriptForceBold'', ''postscriptIsFixedPitch'',
     ''Don'' @ [CHR 0xE2, CHR 0x80, CHR 0x99] @ ''t use Production Names'',
     ''DisableAllAutomaticBehaviour'',
     ''Use Typo Metrics'', ''Has WWS Names'', ''Use Extension Kerning'']"

definition CUSTOM_INTLIST_PARAMS :: "string set" where
  "CUSTOM_INTLIST_PARAMS = set [
     ''fsType'', ''openTypeOS2CodePageRanges'', ''openTypeOS2FamilyClass'',
     ''openTypeOS2Panose'', ''openTypeOS2Type'', ''openTypeOS2UnicodeRanges'',
     ''panose'', ''unicodeRanges'', ''codePageRanges'', ''openTypeHeadFlags'']"

text \<open>
  \<^verbatim>\<open>frozenset(('GASP Table'))\<close> has no comma inside the parentheses: it is the set of
  the characters of one string, so \<^verbatim>\<open>self.name in self._CUSTOM_DICT_PARAMS\<close> holds for
  the one-character names drawn from it.
\<close>

definition CUSTOM_DICT_PARAMS :: "string set" where
  "CUSTOM_DICT_PARAMS = (\<lambda>c. [c]) ` set ''GASP Table''"

definition getValue :: "GSCustomParameter \<Rightarrow> pval" where
  "getValue self = cp_value self"

text \<open>The cast that \<^verbatim>\<open>setValue\<close> applies, chosen by the parameter's name.\<close>

definition cast_value :: "externals \<Rightarrow> string \<Rightarrow> pval \<Rightarrow> pyerr + pval" where
  "cast_value X name v =
     (if name \<in> CUSTOM_INT_PARAMS then map_sum id VInt (py_int X v)
      else if name \<in> CUSTOM_FLOAT_PARAMS then map_sum id VFloat (py_float X v)
      else if name \<in> CUSTOM_BOOL_PARAMS then Inr (VBool (truthy v))
      else if name \<in> CUSTOM_INTLIST_PARAMS then readIntlist X v
      else if name \<in> CUSTOM_DICT_PARAMS then parser_parse X v
      else if name = ''note'' then Inr (VStr (py_str X v))
      else Inr v)"

definition setValue :: "externals \<Rightarrow> GSCustomParameter \<Rightarrow> pval \<Rightarrow> (pyerr + unit) \<times> GSCustomParameter"
  where
  "setValue X self v =
     (case cast_value X (cp_name self) v of
        Inl e \<Rightarrow> (Inl e, self)
      | Inr v' \<Rightarrow> (Inr (), self\<lparr>cp_value := v'\<rparr>))"

text \<open>
  \<^verbatim>\<open>__init__(self, name, value)\<close>: \<^verbatim>\<open>self.name = name\<close>, then \<^verbatim>\<open>self.value = value\<close>
  through the property. A raise in the cast leaves no object.
\<close>

definition GSCustomParameter_init :: "externals \<Rightarrow> string \<Rightarrow> pval \<Rightarrow> pyerr + GSCustomParameter"
  where
  "GSCustomParameter_init X name v =
     (case cast_value X name v of
        Inl e \<Rightarrow> Inl e
      | Inr v' \<Rightarrow> Inr \<lparr>cp_name = name, cp_value = v'\<rparr>)"

text \<open>\<^verbatim>\<open>'"%s"' % s\<close>.\<close>

definition quoted :: "string \<Rightarrow> string" where
  "quoted s = [CHR 0x22] @ s @ [CHR 0x22]"

text \<open>One element of a list value, as the loop of \<^verbatim>\<open>plistValue\<close> renders it.\<close>

definition render_element :: "externals \<Rightarrow> pval \<Rightarrow> string" where
  "render_element X v =
     (case v of
        VInt n \<Rightarrow> py_str X v
      | VBool b \<Rightarrow> py_str X v
      | VFloat r \<Rightarrow> py_str X v
      | VDict kvs \<Rightarrow> writeDict X kvs
      | VODict kvs \<Rightarrow> writeDict X kvs
      | _ \<Rightarrow> (let t = py_str X v in if needsQuotes X (VStr t) then quoted t else t))"

text \<open>One entry of a dict value: \<^verbatim>\<open>"%s = %s;" % (key, v)\<close> after the two quoting tests.\<close>

definition render_entry :: "externals \<Rightarrow> string \<times> pval \<Rightarrow> string" where
  "render_entry X kv =
     (let key = (if needsQuotes X (VStr (fst kv)) then quoted (fst kv) else fst kv);
          v = (if needsQuotes X (snd kv) then quoted (py_str X (snd kv)) else py_str X (snd kv))
      in key @ '' = '' @ v @ '';'')"

definition render_dict :: "externals \<Rightarrow> (string \<times> pval) list \<Rightarrow> string" where
  "render_dict X kvs =
     ''{\<newline>'' @ join ''\<newline>'' (map (render_entry X) (sort_key fst kvs)) @ ''\<newline>}''"

definition plistValue :: "externals \<Rightarrow> GSCustomParameter \<Rightarrow> pyerr + string" where
  "plistValue X self =
     (let name = (if needsQuotes X (VStr (cp_name self)) then quoted (cp_name self)
                  else cp_name self);
          v = getValue self;
          rendered =
            (if cp_name self \<in> CUSTOM_INT_PARAMS then Inr (py_str X v)
             else if cp_name self \<in> CUSTOM_FLOAT_PARAMS then floatToString X v
             else if cp_name self \<in> CUSTOM_BOOL_PARAMS then Inr (if truthy v then ''1'' else ''0'')
             else if cp_name self \<in> CUSTOM_INTLIST_PARAMS then
               (case writeIntlist X v of
                  Inl e \<Rightarrow> Inl e
                | Inr parts \<Rightarrow>
                    Inr (if length parts > 0 then ''(\<newline>'' @ join '',\<newline>'' parts @ ''\<newline>)''
                         else ''(\<newline>)''))
             else
               (case v of
                  VStr t \<Rightarrow> Inr (feature_syntax_encode X t)
                | VList vs \<Rightarrow>
                    Inr (''(\<newline>'' @ join '',\<newline>'' (map (render_element X) vs) @ ''\<newline>)'')
                | VDict kvs \<Rightarrow> Inr (render_dict X kvs)
                | VODict kvs \<Rightarrow> Inr (render_dict X kvs)
                | _ \<Rightarrow> Inl TypeError))
      in case rendered of
           Inl e \<Rightarrow> Inl e
         | Inr t \<Rightarrow> Inr (''{\<newline>name = '' @ name @ '';\<newline>value = '' @ t @ '';\<newline>}''))"

section \<open>CustomParametersProxy\<close>

text \<open>
  The proxy reads and writes \<^verbatim>\<open>self._owner._customParameters\<close>, a list of parameter
  objects. A key is an integer position or a name (slices are left out). What indexing
  returns is either a plain value (\<^verbatim>\<open>None\<close> included) or a parameter object.
\<close>

datatype key = KInt int | KStr string

datatype item = ItemValue pval | ItemParameter GSCustomParameter

text \<open>The \<^verbatim>\<open>for\<close> loop of \<^verbatim>\<open>__getitem__\<close>, with the \<^verbatim>\<open>return None\<close> that follows it.\<close>

fun value_for_name :: "GSCustomParameter list \<Rightarrow> string \<Rightarrow> pval" where
  "value_for_name [] k = VNone"
| "value_for_name (p # ps) k = (if cp_name p = k then cp_value p else value_for_name ps k)"

definition CustomParameters_getitem :: "GSCustomParameter list \<Rightarrow> key \<Rightarrow> pyerr + item" where
  "CustomParameters_getitem ps k =
     (case k of
        KInt i \<Rightarrow> map_sum id ItemParameter (py_index ps i)
      | KStr n \<Rightarrow> Inr (ItemValue (value_for_name ps n)))"

text \<open>
  \<^verbatim>\<open>Value.value = value\<close> where \<^verbatim>\<open>Value\<close> is a plain value: the builtin types have no
  attribute \<^verbatim>\<open>value\<close> and accept none, so the assignment raises; an \<^verbatim>\<open>OrderedDict\<close>
  accepts the attribute, which changes none of its entries.
\<close>

fun accepts_attributes :: "pval \<Rightarrow> bool" where
  "accepts_attributes (VODict kvs) = True"
| "accepts_attributes _ = False"

text \<open>
  \<^verbatim>\<open>__setitem__(self, key, value)\<close>: \<^verbatim>\<open>Value = self.__getitem__(key)\<close>; when it is not
  \<^verbatim>\<open>None\<close>, \<^verbatim>\<open>Value.value = value\<close>; otherwise a new parameter is built and appended.
  With an integer key \<^verbatim>\<open>__getitem__\<close> raises or returns the parameter object at that
  position, and the assignment goes through the parameter's property. With a name it
  returns the stored value of the first parameter of that name, or \<^verbatim>\<open>None\<close>.
\<close>

definition CustomParameters_setitem ::
  "externals \<Rightarrow> GSCustomParameter list \<Rightarrow> key \<Rightarrow> pval \<Rightarrow> (pyerr + unit) \<times> GSCustomParameter list"
  where
  "CustomParameters_setitem X ps k v =
     (case k of
        KInt i \<Rightarrow>
          (case py_index ps i of
             Inl e \<Rightarrow> (Inl e, ps)
           | Inr p \<Rightarrow>
               (fst (setValue X p v),
                ps[nat (if i < 0 then int (length ps) + i else i) := snd (setValue X p v)]))
      | KStr n \<Rightarrow>
          (let found = value_for_name ps n
           in if found \<noteq> VNone then
                (if accepts_attributes found then (Inr (), ps) else (Inl AttributeError, ps))
              else
                (case GSCustomParameter_init X n v of
                   Inl e \<Rightarrow> (Inl e, ps)
                 | Inr parameter \<Rightarrow> (Inr (), ps @ [parameter]))))"

section \<open>The entity graph\<close>

text \<open>
  Masters, layers, glyphs and fonts are objects that refer to each other: a layer's
  \<^verbatim>\<open>parent\<close> is its glyph, a glyph's \<^verbatim>\<open>parent\<close> is its font, a font lists its masters, a
  glyph maps layer ids to layers. The model keeps them in a store, one table per class,
  and a reference is an address into the table of its class.

  An attribute that no modelled method reads by name lives in the object's \<^verbatim>\<open>attrs\<close>:
  what \<^verbatim>\<open>getattr\<close> finds there is a plain value, an instance of one of the wrapper
  types of \<^verbatim>\<open>glyphsLib.types\<close> (\<^verbatim>\<open>point\<close>, \<^verbatim>\<open>transform\<close>, \<^verbatim>\<open>color\<close>,
  \<^verbatim>\<open>glyphs_datetime\<close>; the argument is its \<^verbatim>\<open>.value\<close>), or some other object (a proxy,
  a list of entities).
\<close>

type_synonym addr = nat

datatype attr = Plain pval | Wrapper pval | Instance

type_synonym attrs = "string \<Rightarrow> attr option"

text \<open>
  \<^verbatim>\<open>GSFontMaster\<close>: \<^verbatim>\<open>id\<close>, the cached \<^verbatim>\<open>_name\<close> (\<^verbatim>\<open>None\<close> until the first read),
  \<^verbatim>\<open>_customParameters\<close>, \<^verbatim>\<open>_weight\<close>, \<^verbatim>\<open>_width\<close>, \<^verbatim>\<open>_custom\<close>, \<^verbatim>\<open>_custom1\<close>,
  \<^verbatim>\<open>_custom2\<close> (each a string or \<^verbatim>\<open>None\<close>) and \<^verbatim>\<open>italicAngle\<close>.
\<close>

record GSFontMaster =
  m_id :: "string option"
  m_name :: pval
  m_customParameters :: "GSCustomParameter list"
  m_weight :: "string option"
  m_width :: "string option"
  m_custom :: "string option"
  m_custom1 :: "string option"
  m_custom2 :: "string option"
  m_italicAngle :: real
  m_attrs :: attrs

text \<open>\<^verbatim>\<open>GSAnchor\<close>: \<^verbatim>\<open>name\<close>, \<^verbatim>\<open>position\<close> and the back-reference \<^verbatim>\<open>_parent\<close>.\<close>

record GSAnchor =
  a_name :: "string option"
  a_position :: pval
  a_parent :: "addr option"

text \<open>
  \<^verbatim>\<open>GSLayer\<close>. The class declares no \<^verbatim>\<open>parent\<close> and \<^verbatim>\<open>__init__\<close> sets none: until
  \<^verbatim>\<open>_setupLayer\<close> assigns it, reading \<^verbatim>\<open>self.parent\<close> raises \<^verbatim>\<open>AttributeError\<close>.
\<close>

datatype parent_ref = NoAttribute | ParentNone | Parent addr

record GSLayer =
  l_parent :: parent_ref
  l_layerId :: "string option"
  l_associatedMasterId :: "string option"
  l_name :: pval
  l_anchors :: "GSAnchor list"
  l_attrs :: attrs

text \<open>\<^verbatim>\<open>GSGlyph\<close>: \<^verbatim>\<open>parent\<close> (\<^verbatim>\<open>None\<close> or the font) and the \<^verbatim>\<open>OrderedDict\<close> \<^verbatim>\<open>_layers\<close>.\<close>

record GSGlyph =
  g_parent :: "addr option"
  g_layers :: "(string option \<times> addr) list"

text \<open>
  \<^verbatim>\<open>GSFont\<close>: \<^verbatim>\<open>_versionMinor\<close>, read and written through the property
  \<^verbatim>\<open>versionMinor = property(getVersionMinor, setVersionMinor)\<close>, and \<^verbatim>\<open>_masters\<close>.
\<close>

record GSFont =
  f_versionMinor :: int
  f_masters :: "addr list"
  f_attrs :: attrs

record store =
  masters :: "addr \<Rightarrow> GSFontMaster"
  layers :: "addr \<Rightarrow> GSLayer"
  glyphs :: "addr \<Rightarrow> GSGlyph"
  fonts :: "addr \<Rightarrow> GSFont"

text \<open>Truthiness of a string-or-\<^verbatim>\<open>None\<close> attribute.\<close>

definition nonempty :: "string option \<Rightarrow> bool" where
  "nonempty x = (case x of None \<Rightarrow> False | Some t \<Rightarrow> t \<noteq> [])"

section \<open>GSFont: the minor version\<close>

definition getVersionMinor :: "GSFont \<Rightarrow> int" where
  "getVersionMinor self = f_versionMinor self"

text \<open>
  \<^verbatim>\<open>assert value >= 0 and value <= 999\<close> followed by the assignment: a failed assertion
  raises before the field is touched.
\<close>

definition setVersionMinor :: "GSFont \<Rightarrow> int \<Rightarrow> (pyerr + unit) \<times> GSFont" where
  "setVersionMinor self v =
     (if v \<ge> 0 \<and> v \<le> 999 then (Inr (), self\<lparr>f_versionMinor := v\<rparr>)
      else (Inl AssertionError, self))"

section \<open>LayerAnchorsProxy\<close>

text \<open>
  The \<^verbatim>\<open>for\<close> loop of \<^verbatim>\<open>append\<close>: at the first anchor whose name equals the new
  anchor's name, the new anchor gets its \<^verbatim>\<open>_parent\<close> and takes that place, and the
  method returns. \<^verbatim>\<open>None\<close> stands for a loop that ran to its end.
\<close>

fun replace_same_name :: "addr \<Rightarrow> GSAnchor list \<Rightarrow> GSAnchor \<Rightarrow> GSAnchor list option" where
  "replace_same_name owner [] anchor = None"
| "replace_same_name owner (a # rest) anchor =
     (if a_name a = a_name anchor then Some (anchor\<lparr>a_parent := Some owner\<rparr> # rest)
      else map_option ((#) a) (replace_same_name owner rest anchor))"

text \<open>
  \<^verbatim>\<open>append(self, anchor)\<close> on the proxy of the layer \<^verbatim>\<open>owner\<close>, whose \<^verbatim>\<open>_anchors\<close> is
  the list: after the loop, \<^verbatim>\<open>if anchor.name:\<close> appends, and the \<^verbatim>\<open>else\<close> raises
  \<^verbatim>\<open>ValueError("Anchor must have name")\<close>.
\<close>

definition LayerAnchors_append ::
  "addr \<Rightarrow> GSAnchor list \<Rightarrow> GSAnchor \<Rightarrow> (pyerr + unit) \<times> GSAnchor list" where
  "LayerAnchors_append owner anchors anchor =
     (case replace_same_name owner anchors anchor of
        Some anchors' \<Rightarrow> (Inr (), anchors')
      | None \<Rightarrow>
          if nonempty (a_name anchor) then (Inr (), anchors @ [anchor])
          else (Inl ValueError, anchors))"

section \<open>GSFontMaster: the name\<close>

text \<open>
  \<^verbatim>\<open>if (self._custom and len(self._custom) and self._custom not in names):
  names.append(self._custom)\<close>, for one of the three custom components.
\<close>

definition add_custom :: "string option \<Rightarrow> string option list \<Rightarrow> string option list" where
  "add_custom c names = (if nonempty c \<and> c \<notin> set names then names @ [c] else names)"

text \<open>\<^verbatim>\<open>" ".join(list(names))\<close>: a \<^verbatim>\<open>None\<close> among the items raises \<^verbatim>\<open>TypeError\<close>.\<close>

definition join_names :: "string option list \<Rightarrow> pyerr + pval" where
  "join_names names =
     (if None \<in> set names then Inl TypeError else Inr (VStr (join '' '' (map the names))))"

text \<open>
  The branch of the \<^verbatim>\<open>name\<close> property that computes the name. \<^verbatim>\<open>names\<close> is a list:
  \<^verbatim>\<open>names.remove("Regular")\<close> deletes the first item equal to \<^verbatim>\<open>"Regular"\<close> and raises
  \<^verbatim>\<open>ValueError\<close> when there is none, and \<^verbatim>\<open>names.add("Italic")\<close> raises
  \<^verbatim>\<open>AttributeError\<close>, since a list has no method \<^verbatim>\<open>add\<close>.
\<close>

text \<open>
  The literal \<^verbatim>\<open>0.01\<close> is a double: the one nearest to one hundredth, which is
  5764607523034235 / 2^59, a little above it. \<^verbatim>\<open>italicAngle\<close> is a float as well
  (\<^verbatim>\<open>m_italicAngle\<close> is the number it is), and the comparison of two doubles is the
  comparison of these numbers.
\<close>

definition literal_0_01 :: real where
  "literal_0_01 = 5764607523034235 / 576460752303423488"

definition computed_name :: "GSFontMaster \<Rightarrow> pyerr + pval" where
  "computed_name self =
     (let names = add_custom (m_custom2 self) (add_custom (m_custom1 self)
                    (add_custom (m_custom self) [m_weight self, m_width self]))
      in if length names > 1 \<and> Some ''Regular'' \<notin> set names then Inl ValueError
         else
           (let names' = (if length names > 1 then remove1 (Some ''Regular'') names else names)
            in if \<bar>m_italicAngle self\<bar> > literal_0_01 then Inl AttributeError
               else join_names names'))"

text \<open>
  The \<^verbatim>\<open>name\<close> property: the cached \<^verbatim>\<open>_name\<close> when it is not \<^verbatim>\<open>None\<close>; otherwise the
  value of the custom parameter \<^verbatim>\<open>"Master Name"\<close> when that is not \<^verbatim>\<open>None\<close>, else the
  computed name; the result is stored in \<^verbatim>\<open>_name\<close> and returned.
\<close>

definition GSFontMaster_name :: "GSFontMaster \<Rightarrow> (pyerr + pval) \<times> GSFontMaster" where
  "GSFontMaster_name self =
     (if m_name self \<noteq> VNone then (Inr (m_name self), self)
      else
        (let name = value_for_name (m_customParameters self) ''Master Name''
         in if name \<noteq> VNone then (Inr name, self\<lparr>m_name := name\<rparr>)
            else
              (case computed_name self of
                 Inl e \<Rightarrow> (Inl e, self)
               | Inr name' \<Rightarrow> (Inr name', self\<lparr>m_name := name'\<rparr>))))"

section \<open>GSFont.masterForId\<close>

text \<open>
  \<^verbatim>\<open>masterForId(self, key)\<close> on the font at \<^verbatim>\<open>f\<close>: the first master of \<^verbatim>\<open>_masters\<close>
  whose \<^verbatim>\<open>id\<close> equals the key, or \<^verbatim>\<open>None\<close>.
\<close>

definition masterForId :: "store \<Rightarrow> addr \<Rightarrow> string option \<Rightarrow> addr option" where
  "masterForId s f k = find (\<lambda>a. m_id (masters s a) = k) (f_masters (fonts s f))"

section \<open>GSLayer: the name\<close>

text \<open>
  The \<^verbatim>\<open>name\<close> property of the layer at \<^verbatim>\<open>l\<close>. The condition reads
  \<^verbatim>\<open>self.associatedMasterId and self.associatedMasterId == self.layerId and self.parent\<close>;
  a glyph and a master are objects without \<^verbatim>\<open>__len__\<close> or \<^verbatim>\<open>__bool__\<close>, hence true.
  \<^verbatim>\<open>self.parent.parent.masterForId\<close> raises \<^verbatim>\<open>AttributeError\<close> when the glyph's
  \<^verbatim>\<open>parent\<close> is \<^verbatim>\<open>None\<close>. Reading the master's name may cache it in the master.
\<close>

definition GSLayer_name :: "store \<Rightarrow> addr \<Rightarrow> (pyerr + pval) \<times> store" where
  "GSLayer_name s l =
     (let self = layers s l
      in if nonempty (l_associatedMasterId self)
            \<and> l_associatedMasterId self = l_layerId self then
           (case l_parent self of
              NoAttribute \<Rightarrow> (Inl AttributeError, s)
            | ParentNone \<Rightarrow> (Inr (l_name self), s)
            | Parent g \<Rightarrow>
                (case g_parent (glyphs s g) of
                   None \<Rightarrow> (Inl AttributeError, s)
                 | Some f \<Rightarrow>
                     (case masterForId s f (l_associatedMasterId self) of
                        None \<Rightarrow> (Inr (l_name self), s)
                      | Some m \<Rightarrow>
                          (fst (GSFontMaster_name (masters s m)),
                           s\<lparr>masters := (masters s)(m := snd (GSFontMaster_name (masters s m)))\<rparr>))))
         else (Inr (l_name self), s))"

section \<open>GlyphLayerProxy\<close>

text \<open>
  \<^verbatim>\<open>d[k] = v\<close> on an \<^verbatim>\<open>OrderedDict\<close>: a key that is present keeps its place and takes
  the new value, a new key goes to the end.
\<close>

fun od_set :: "('k \<times> 'v) list \<Rightarrow> 'k \<Rightarrow> 'v \<Rightarrow> ('k \<times> 'v) list" where
  "od_set [] k v = [(k, v)]"
| "od_set ((k', v') # rest) k v =
     (if k' = k then (k', v) # rest else (k', v') # od_set rest k v)"

text \<open>
  \<^verbatim>\<open>GSGlyph._setupLayer(self, layer, key)\<close> for the glyph at \<^verbatim>\<open>g\<close> and the layer at
  \<^verbatim>\<open>l\<close>: \<^verbatim>\<open>layer.parent = self\<close>, \<^verbatim>\<open>layer.layerId = key\<close>, and
  \<^verbatim>\<open>layer.associatedMasterId = key\<close> when the glyph has a font and that font has a master
  with this id.
\<close>

definition setupLayer :: "store \<Rightarrow> addr \<Rightarrow> addr \<Rightarrow> string option \<Rightarrow> store" where
  "setupLayer s g l k =
     (let s1 = s\<lparr>layers := (layers s)(l := (layers s l)\<lparr>l_parent := Parent g, l_layerId := k\<rparr>)\<rparr>
      in case g_parent (glyphs s1 g) of
           None \<Rightarrow> s1
         | Some f \<Rightarrow>
             (case masterForId s1 f k of
                None \<Rightarrow> s1
              | Some m \<Rightarrow>
                  s1\<lparr>layers := (layers s1)(l := (layers s1 l)\<lparr>l_associatedMasterId := k\<rparr>)\<rparr>))"

text \<open>
  What the bulk setter can be given: a \<^verbatim>\<open>list\<close> or a \<^verbatim>\<open>tuple\<close> of layers, the layer
  proxy of a glyph, a \<^verbatim>\<open>dict\<close> whose values are layers, or anything else (\<^verbatim>\<open>None\<close>, a
  set, a generator, an instance of a subclass: the tests are on the exact type).
  Iterating a proxy yields \<^verbatim>\<open>self._owner._layers.values()\<close>; of a dict only the values
  are used.
\<close>

datatype layers_arg =
  ArgList "addr list" | ArgTuple "addr list" | ArgProxy addr | ArgDict "(pval \<times> addr) list"
  | ArgOther

definition iterated_layers :: "store \<Rightarrow> layers_arg \<Rightarrow> addr list option" where
  "iterated_layers s vs =
     (case vs of
        ArgList ls \<Rightarrow> Some ls
      | ArgTuple ls \<Rightarrow> Some ls
      | ArgProxy g' \<Rightarrow> Some (map snd (g_layers (glyphs s g')))
      | ArgDict kvs \<Rightarrow> Some (map snd kvs)
      | ArgOther \<Rightarrow> None)"

text \<open>
  \<^verbatim>\<open>setter(self, values)\<close> on the proxy of the glyph at \<^verbatim>\<open>g\<close>: the layers are put into a
  new \<^verbatim>\<open>OrderedDict\<close> under their \<^verbatim>\<open>layerId\<close>, then every entry goes through
  \<^verbatim>\<open>_setupLayer\<close>, then the dict becomes the glyph's \<^verbatim>\<open>_layers\<close>. Any other type raises
  \<^verbatim>\<open>TypeError\<close> before anything is changed.
\<close>

definition GlyphLayerProxy_setter :: "store \<Rightarrow> addr \<Rightarrow> layers_arg \<Rightarrow> (pyerr + unit) \<times> store" where
  "GlyphLayerProxy_setter s g vs =
     (case iterated_layers s vs of
        None \<Rightarrow> (Inl TypeError, s)
      | Some ls \<Rightarrow>
          (let newLayers = foldl (\<lambda>od l. od_set od (l_layerId (layers s l)) l) [] ls;
               s' = foldl (\<lambda>t kl. setupLayer t g (snd kl) (fst kl)) s newLayers
           in (Inr (), s'\<lparr>glyphs := (glyphs s')(g := (glyphs s' g)\<lparr>g_layers := newLayers\<rparr>)\<rparr>)))"

text \<open>
  \<^verbatim>\<open>__getitem__(self, key)\<close> with an integer key: a negative key is first increased by the
  length, then \<^verbatim>\<open>list(self._owner._layers.values())[key]\<close> is read.
\<close>

definition GlyphLayerProxy_getitem :: "store \<Rightarrow> addr \<Rightarrow> int \<Rightarrow> pyerr + addr" where
  "GlyphLayerProxy_getitem s g i =
     (let n = int (length (g_layers (glyphs s g)))
      in py_index (map snd (g_layers (glyphs s g))) (if i < 0 then n + i else i))"

text \<open>
  What \<^verbatim>\<open>_setupLayer\<close> leaves in the layer it is given, and whether a key names a master
  of the glyph's font.
\<close>

definition names_master :: "store \<Rightarrow> addr \<Rightarrow> string option \<Rightarrow> bool" where
  "names_master s g k =
     (case g_parent (glyphs s g) of None \<Rightarrow> False | Some f \<Rightarrow> masterForId s f k \<noteq> None)"

definition set_up :: "store \<Rightarrow> addr \<Rightarrow> string option \<Rightarrow> GSLayer \<Rightarrow> GSLayer" where
  "set_up s g k L =
     (if names_master s g k
      then L\<lparr>l_parent := Parent g, l_layerId := k, l_associatedMasterId := k\<rparr>
      else L\<lparr>l_parent := Parent g, l_layerId := k\<rparr>)"

section \<open>The serialization policy\<close>

subsection \<open>Equality of plain values\<close>

text \<open>
  Python's \<^verbatim>\<open>==\<close> on plain values: \<^verbatim>\<open>bool\<close>, \<^verbatim>\<open>int\<close> and \<^verbatim>\<open>float\<close> compare by
  their number (\<^verbatim>\<open>100.0 == 100\<close>, \<^verbatim>\<open>False == 0\<close>), strings by their text, lists and
  tuples item by item and never with each other, dicts by their entries whatever the
  order, two \<^verbatim>\<open>OrderedDict\<close>s by their entries in order; \<^verbatim>\<open>None\<close> equals \<^verbatim>\<open>None\<close>
  only. The keys of a dict are taken to be pairwise different.
\<close>

fun numeric :: "pval \<Rightarrow> real option" where
  "numeric (VBool b) = Some (if b then 1 else 0)"
| "numeric (VInt n) = Some (real_of_int n)"
| "numeric (VFloat r) = Some r"
| "numeric _ = None"

fun py_eq :: "pval \<Rightarrow> pval \<Rightarrow> bool"
  and py_eq_list :: "pval list \<Rightarrow> pval list \<Rightarrow> bool"
  and py_eq_items :: "(string \<times> pval) list \<Rightarrow> (string \<times> pval) list \<Rightarrow> bool"
  and dict_has :: "string \<Rightarrow> pval \<Rightarrow> (string \<times> pval) list \<Rightarrow> bool"
  and dict_sub :: "(string \<times> pval) list \<Rightarrow> (string \<times> pval) list \<Rightarrow> bool"
where
  "py_eq VNone b = (b = VNone)"
| "py_eq (VBool x) b = (numeric b = Some (if x then 1 else 0))"
| "py_eq (VInt x) b = (numeric b = Some (real_of_int x))"
| "py_eq (VFloat x) b = (numeric b = Some x)"
| "py_eq (VStr x) b = (b = VStr x)"
| "py_eq (VList xs) b = (case b of VList ys \<Rightarrow> py_eq_list xs ys | _ \<Rightarrow> False)"
| "py_eq (VTuple xs) b = (case b of VTuple ys \<Rightarrow> py_eq_list xs ys | _ \<Rightarrow> False)"
| "py_eq (VDict a) b =
     (case b of
        VDict c \<Rightarrow> length a = length c \<and> dict_sub a c
      | VODict c \<Rightarrow> length a = length c \<and> dict_sub a c
      | _ \<Rightarrow> False)"
| "py_eq (VODict a) b =
     (case b of
        VDict c \<Rightarrow> length a = length c \<and> dict_sub a c
      | VODict c \<Rightarrow> py_eq_items a c
      | _ \<Rightarrow> False)"
| "py_eq_list [] ys = (ys = [])"
| "py_eq_list (x # xs) [] = False"
| "py_eq_list (x # xs) (y # ys) = (py_eq x y \<and> py_eq_list xs ys)"
| "py_eq_items [] b = (b = [])"
| "py_eq_items (kv # a) [] = False"
| "py_eq_items (kv # a) (kv' # b) = (fst kv = fst kv' \<and> py_eq (snd kv) (snd kv') \<and> py_eq_items a b)"
| "dict_has k v [] = False"
| "dict_has k v (kv # b) = (if fst kv = k then py_eq v (snd kv) else dict_has k v b)"
| "dict_sub [] b = True"
| "dict_sub (kv # a) b = (dict_has (fst kv) (snd kv) b \<and> dict_sub a b)"


subsection \<open>GSBase.shouldWriteValueForKey\<close>

text \<open>
  The classes that the transcribed \<^verbatim>\<open>_classesForName\<close> tables name: the builtins, the
  wrapper types imported from \<^verbatim>\<open>glyphsLib.types\<close>, and the subclasses of \<^verbatim>\<open>GSBase\<close> by
  their name.
\<close>

datatype klass =
    K_int | K_float | K_bool | K_str | K_unicode | K_dict | K_OrderedDict
  | K_point | K_transform | K_color | K_glyphs_datetime
  | K_GS string

text \<open>
  The three class attributes \<^verbatim>\<open>_classesForName\<close>, \<^verbatim>\<open>_defaultsForName\<close> and
  \<^verbatim>\<open>_wrapperKeysTranslate\<close> of a subclass of \<^verbatim>\<open>GSBase\<close>.
\<close>

record class_tables =
  classesForName :: "(string \<times> klass) list"
  defaultsForName :: "(string \<times> pval) list"
  wrapperKeysTranslate :: "(string \<times> string) list"

text \<open>
  \<^verbatim>\<open>default != value\<close> for a plain default: decided by the values when the attribute is
  plain, by the wrapper's class when it is a wrapper, and true for any other object
  (a proxy defines no comparison, so it differs from every plain value).
\<close>

definition attr_ne :: "externals \<Rightarrow> pval \<Rightarrow> attr \<Rightarrow> bool" where
  "attr_ne X d v =
     (case v of Plain p \<Rightarrow> \<not> py_eq d p | Wrapper w \<Rightarrow> wrapper_ne X d w | Instance \<Rightarrow> True)"

text \<open>\<^verbatim>\<open>value == 0\<close>.\<close>

definition attr_is_zero :: "externals \<Rightarrow> attr \<Rightarrow> bool" where
  "attr_is_zero X v =
     (case v of
        Plain p \<Rightarrow> py_eq p (VInt 0)
      | Wrapper w \<Rightarrow> wrapper_eq X w (VInt 0)
      | Instance \<Rightarrow> False)"

text \<open>\<^verbatim>\<open>isinstance(value, baseType) and value.value is None\<close>.\<close>

definition no_value :: "attr \<Rightarrow> bool" where
  "no_value v = (case v of Wrapper w \<Rightarrow> w = VNone | _ \<Rightarrow> False)"

text \<open>
  \<^verbatim>\<open>self._wrapperKeysTranslate.get(key, key)\<close> and
  \<^verbatim>\<open>self._defaultsForName.get(key, None)\<close>.
\<close>

definition translated :: "class_tables \<Rightarrow> string \<Rightarrow> string" where
  "translated C k = (case map_of (wrapperKeysTranslate C) k of None \<Rightarrow> k | Some t \<Rightarrow> t)"

definition declared_default :: "class_tables \<Rightarrow> string \<Rightarrow> pval" where
  "declared_default C k = (case map_of (defaultsForName C) k of None \<Rightarrow> VNone | Some d \<Rightarrow> d)"

text \<open>
  \<^verbatim>\<open>GSBase.shouldWriteValueForKey(self, key)\<close>, for the tables of the object's class and
  the object's \<^verbatim>\<open>getattr\<close>: the attribute is read first (under the translated key), then
  the class is looked up (\<^verbatim>\<open>KeyError\<close> for a key that \<^verbatim>\<open>_classesForName\<close> lacks), then
  the three tests are made in the order of the source.
\<close>

definition GSBase_shouldWriteValueForKey ::
  "externals \<Rightarrow> class_tables \<Rightarrow> (string \<Rightarrow> pyerr + attr) \<Rightarrow> string \<Rightarrow> pyerr + bool" where
  "GSBase_shouldWriteValueForKey X C getattr k =
     (let getKey = translated C k
      in case getattr getKey of
           Inl e \<Rightarrow> Inl e
         | Inr v \<Rightarrow>
             (case map_of (classesForName C) k of
                None \<Rightarrow> Inl KeyError
              | Some c \<Rightarrow>
                  (let default = declared_default C k
                   in if default \<noteq> VNone then Inr (attr_ne X default v)
                      else if c \<in> {K_int, K_float, K_bool} \<and> attr_is_zero X v then Inr False
                      else if no_value v then Inr False
                      else Inr True)))"

text \<open>\<^verbatim>\<open>getattr\<close> on the attributes kept in \<^verbatim>\<open>attrs\<close>.\<close>

definition getattr_of :: "attrs \<Rightarrow> string \<Rightarrow> pyerr + attr" where
  "getattr_of a k = (case a k of None \<Rightarrow> Inl AttributeError | Some v \<Rightarrow> Inr v)"

text \<open>
  \<^verbatim>\<open>len(value)\<close>, defined for the plain strings and containers; the values tested with
  it are the dicts of \<^verbatim>\<open>backgroundImage\<close> and \<^verbatim>\<open>piece\<close>.
\<close>

definition py_len :: "attr \<Rightarrow> pyerr + nat" where
  "py_len v =
     (case v of
        Plain (VStr t) \<Rightarrow> Inr (length t)
      | Plain (VList xs) \<Rightarrow> Inr (length xs)
      | Plain (VTuple xs) \<Rightarrow> Inr (length xs)
      | Plain (VDict kvs) \<Rightarrow> Inr (length kvs)
      | Plain (VODict kvs) \<Rightarrow> Inr (length kvs)
      | _ \<Rightarrow> Inl TypeError)"

text \<open>\<^verbatim>\<open>value = getattr(self, key); return len(value) > 0\<close>.\<close>

definition nonempty_attr :: "(string \<Rightarrow> pyerr + attr) \<Rightarrow> string \<Rightarrow> pyerr + bool" where
  "nonempty_attr getattr k =
     (case getattr k of
        Inl e \<Rightarrow> Inl e
      | Inr v \<Rightarrow> (case py_len v of Inl e \<Rightarrow> Inl e | Inr n \<Rightarrow> Inr (n > 0)))"

text \<open>A string-or-\<^verbatim>\<open>None\<close> field as a plain value.\<close>

definition opt_str :: "string option \<Rightarrow> pval" where
  "opt_str x = (case x of None \<Rightarrow> VNone | Some t \<Rightarrow> VStr t)"

subsection \<open>GSFont\<close>




subsection \<open>GSFontMaster\<close>






subsection \<open>GSPath, GSComponent, GSBackgroundLayer\<close>











subsection \<open>GSLayer\<close>

definition GSLayer_tables :: class_tables where
  "GSLayer_tables =
     \<lparr>classesForName = [
        (''anchors'', K_GS ''GSAnchor''),
        (''annotations'', K_GS ''GSAnnotation''),
        (''associatedMasterId'', K_str),
        (''background'', K_GS ''GSBackgroundLayer''),
        (''backgroundImage'', K_dict),
        (''color'', K_color),
        (''components'', K_GS ''GSComponent''),
        (''guideLines'', K_GS ''GSGuideLine''),
        (''hints'', K_GS ''GSHint''),
        (''layerId'', K_str),
        (''leftMetricsKey'', K_unicode),
        (''name'', K_unicode),
        (''paths'', K_GS ''GSPath''),
        (''rightMetricsKey'', K_unicode),
        (''userData'', K_dict),
        (''vertWidth'', K_float),
        (''visible'', K_bool),
        (''width'', K_float),
        (''widthMetricsKey'', K_unicode)],
      defaultsForName = [
        (''name'', VStr ''Regular''),
        (''weight'', VInt 600)],
      wrapperKeysTranslate = [(''guideLines'', ''guides'')]\<rparr>"

text \<open>
  \<^verbatim>\<open>getattr\<close> on the layer at \<^verbatim>\<open>l\<close>: the modelled fields, the \<^verbatim>\<open>name\<close> property, and
  the properties that return a proxy.
\<close>

definition GSLayer_getattr :: "store \<Rightarrow> addr \<Rightarrow> string \<Rightarrow> pyerr + attr" where
  "GSLayer_getattr s l k =
     (if k = ''layerId'' then Inr (Plain (opt_str (l_layerId (layers s l))))
      else if k = ''associatedMasterId'' then
        Inr (Plain (opt_str (l_associatedMasterId (layers s l))))
      else if k = ''name'' then map_sum id Plain (fst (GSLayer_name s l))
      else if k = ''parent'' then
        (case l_parent (layers s l) of
           NoAttribute \<Rightarrow> Inl AttributeError
         | ParentNone \<Rightarrow> Inr (Plain VNone)
         | Parent g \<Rightarrow> Inr Instance)
      else if k \<in> set [''anchors'', ''paths'', ''components'', ''guideLines'', ''annotations'',
                       ''userData''] then Inr Instance
      else getattr_of (l_attrs (layers s l)) k)"

text \<open>
  \<^verbatim>\<open>GSLayer.shouldWriteValueForKey\<close>. The second test is \<^verbatim>\<open>key in ("width")\<close>, and
  \<^verbatim>\<open>("width")\<close> is a string, not a tuple: the test holds for every substring of
  \<^verbatim>\<open>width\<close>.
\<close>

definition GSLayer_shouldWriteValueForKey ::
  "externals \<Rightarrow> store \<Rightarrow> addr \<Rightarrow> string \<Rightarrow> pyerr + bool" where
  "GSLayer_shouldWriteValueForKey X s l k =
     (if k \<in> set [''associatedMasterId'', ''name''] then
        Inr (l_layerId (layers s l) \<noteq> l_associatedMasterId (layers s l))
      else if sublist k ''width'' then Inr True
      else if k = ''backgroundImage'' then nonempty_attr (GSLayer_getattr s l) k
      else GSBase_shouldWriteValueForKey X GSLayer_tables (GSLayer_getattr s l) k)"


section \<open>Example objects\<close>

text \<open>
  Objects for the evaluations at concrete inputs: a master as \<^verbatim>\<open>GSFontMaster()\<close>
  leaves the modelled fields (weight and width \<^verbatim>\<open>"Regular"\<close>, \<^verbatim>\<open>_custom\<close> empty, no
  cached name, italic angle 0, \<^verbatim>\<open>id\<close> empty), an anchor as \<^verbatim>\<open>GSAnchor()\<close> leaves
  them (empty name), a layer as \<^verbatim>\<open>GSLayer()\<close> leaves them (both ids empty, \<^verbatim>\<open>_name\<close>
  \<^verbatim>\<open>"Regular"\<close> from the declared default, no \<^verbatim>\<open>parent\<close>), a glyph as \<^verbatim>\<open>GSGlyph()\<close>
  leaves them and a font with minor version 0 and no master. None has a further
  attribute.
\<close>

definition new_master :: GSFontMaster where
  "new_master =
     \<lparr>m_id = Some [], m_name = VNone, m_customParameters = [], m_weight = Some ''Regular'',
      m_width = Some ''Regular'', m_custom = Some [], m_custom1 = None, m_custom2 = None,
      m_italicAngle = 0, m_attrs = (\<lambda>k. None)\<rparr>"

definition new_anchor :: GSAnchor where
  "new_anchor = \<lparr>a_name = Some [], a_position = VNone, a_parent = None\<rparr>"

definition new_layer :: GSLayer where
  "new_layer =
     \<lparr>l_parent = NoAttribute, l_layerId = Some [], l_associatedMasterId = Some [],
      l_name = VStr ''Regular'', l_anchors = [], l_attrs = (\<lambda>k. None)\<rparr>"

definition new_glyph :: GSGlyph where
  "new_glyph = \<lparr>g_parent = None, g_layers = []\<rparr>"

definition new_font :: GSFont where
  "new_font = \<lparr>f_versionMinor = 0, f_masters = [], f_attrs = (\<lambda>k. None)\<rparr>"

text \<open>
  Stores for the evaluations. In \<^verbatim>\<open>example_store\<close> every address holds a new object. In
  \<^verbatim>\<open>bold_font_store\<close> font 0 has the master 0 (id \<^verbatim>\<open>M1\<close>, weight \<^verbatim>\<open>Bold\<close>), glyph 0
  belongs to font 0 and has the master layer 0 of \<^verbatim>\<open>M1\<close>. In \<^verbatim>\<open>unnamed_ids_store\<close> the
  master, with the cached name \<^verbatim>\<open>Bold\<close>, and the layer keep the empty ids they are
  created with. In \<^verbatim>\<open>two_layer_store\<close> glyph 0 belongs to font 0 with the master
  \<^verbatim>\<open>M1\<close>, and the layers 2 and 3, not yet in any glyph, have the ids \<^verbatim>\<open>M1\<close> and
  \<^verbatim>\<open>brace\<close>.
\<close>

definition example_store :: store where
  "example_store =
     \<lparr>masters = (\<lambda>a. new_master), layers = (\<lambda>a. new_layer), glyphs = (\<lambda>a. new_glyph),
      fonts = (\<lambda>a. new_font)\<rparr>"

definition bold_font_store :: store where
  "bold_font_store =
     example_store
       \<lparr>masters := (masters example_store)(0 := new_master\<lparr>m_id := Some ''M1'', m_weight := Some ''Bold''\<rparr>),
        fonts := (fonts example_store)(0 := new_font\<lparr>f_masters := [0]\<rparr>),
        glyphs := (glyphs example_store)(0 := \<lparr>g_parent = Some 0, g_layers = [(Some ''M1'', 0)]\<rparr>),
        layers := (layers example_store)
           (0 := new_layer\<lparr>l_parent := Parent 0, l_layerId := Some ''M1'',
                            l_associatedMasterId := Some ''M1''\<rparr>)\<rparr>"

definition unnamed_ids_store :: store where
  "unnamed_ids_store =
     example_store
       \<lparr>masters := (masters example_store)(0 := new_master\<lparr>m_name := VStr ''Bold''\<rparr>),
        fonts := (fonts example_store)(0 := new_font\<lparr>f_masters := [0]\<rparr>),
        glyphs := (glyphs example_store)(0 := \<lparr>g_parent = Some 0, g_layers = [(Some [], 0)]\<rparr>),
        layers := (layers example_store)(0 := new_layer\<lparr>l_parent := Parent 0\<rparr>)\<rparr>"

definition two_layer_store :: store where
  "two_layer_store =
     example_store
       \<lparr>masters := (masters example_store)(0 := new_master\<lparr>m_id := Some ''M1''\<rparr>),
        fonts := (fonts example_store)(0 := new_font\<lparr>f_masters := [0]\<rparr>),
        glyphs := (glyphs example_store)(0 := new_glyph\<lparr>g_parent := Some 0\<rparr>),
        layers := (layers example_store)
           (2 := new_layer\<lparr>l_layerId := Some ''M1''\<rparr>, 3 := new_layer\<lparr>l_layerId := Some ''brace''\<rparr>)\<rparr>"

text \<open>
  In \<^verbatim>\<open>fresh_layers_store\<close> glyph 0 belongs to font 0, whose one master has the id
  \<^verbatim>\<open>M1\<close>, and every layer is fresh from \<^verbatim>\<open>GSLayer()\<close>.
\<close>

definition fresh_layers_store :: store where
  "fresh_layers_store =
     example_store
       \<lparr>masters := (masters example_store)(0 := new_master\<lparr>m_id := Some ''M1''\<rparr>),
        fonts := (fonts example_store)(0 := new_font\<lparr>f_masters := [0]\<rparr>),
        glyphs := (glyphs example_store)(0 := new_glyph\<lparr>g_parent := Some 0\<rparr>)\<rparr>"


section \<open>An instance of the imported helpers\<close>

text \<open>
  The evaluations at concrete inputs below need some instance of the imported helpers.
  This one quotes nothing and encodes nothing; the evaluations use it only at names and
  values made of ASCII letters and digits, and never reach its other fields.
\<close>

definition bare_externals :: externals where
  "bare_externals =
     \<lparr>needsQuotes = (\<lambda>v. False), feature_syntax_encode = (\<lambda>t. t),
      floatToString = (\<lambda>v. Inl TypeError), writeIntlist = (\<lambda>v. Inl TypeError),
      readIntlist = (\<lambda>v. Inl TypeError), parser_parse = (\<lambda>v. Inl TypeError),
      writeDict = (\<lambda>kvs. []), float_of_str = (\<lambda>t. Inl ValueError), py_repr = (\<lambda>v. []),
      int_of_text = (\<lambda>t. Inl ValueError), double_of_int = (\<lambda>n. Inl OverflowError),
      wrapper_ne = (\<lambda>d w. True), wrapper_eq = (\<lambda>w d. False)\<rparr>"

section \<open>Properties\<close>

text \<open>
  C8. Assigning the font's minor version rejects every value outside 0..999 and leaves the
  stored value as it was; every value from 0 to 999 inclusive is accepted and is what a
  later read returns.
\<close>

theorem C8_setVersionMinor_range:
  "(v < 0 \<or> 999 < v \<longrightarrow> setVersionMinor self v = (Inl AssertionError, self))
   \<and> (0 \<le> v \<and> v \<le> 999 \<longrightarrow>
        setVersionMinor self v = (Inr (), self\<lparr>f_versionMinor := v\<rparr>)
        \<and> getVersionMinor (snd (setVersionMinor self v)) = v)"
  by (auto simp: setVersionMinor_def getVersionMinor_def)

theorem C8_setVersionMinor_range_witness:
  "setVersionMinor new_font 1000
     = (Inl AssertionError, new_font)
   \<and> fst (setVersionMinor new_font 0) = Inr ()
   \<and> getVersionMinor (snd (setVersionMinor new_font 0)) = 0
   \<and> fst (setVersionMinor (snd (setVersionMinor new_font 0)) 999)
        = Inr ()
   \<and> getVersionMinor
        (snd (setVersionMinor (snd (setVersionMinor new_font 0)) 999))
        = 999"
  using C8_setVersionMinor_range [of 1000 "new_font"]
        C8_setVersionMinor_range [of 0 "new_font"]
        C8_setVersionMinor_range
          [of 999 "snd (setVersionMinor new_font 0)"]
  by (simp add: getVersionMinor_def)

subsection \<open>Decimal text: printing then parsing\<close>

lemma digit_below_ten: "d < 10 \<Longrightarrow> d \<in> {0, 1, 2, 3, 4, 5, 6, 7, 8, 9::nat}"
  by auto

lemma digit_val_char: "d < 10 \<Longrightarrow> digit_val (digit_char d) = d"
  using digit_below_ten[of d] by (auto simp: digit_val_def digit_char_def)

lemma is_digit_char: "d < 10 \<Longrightarrow> is_digit (digit_char d)"
  using digit_below_ten[of d] by (auto simp: is_digit_def digit_char_def)

lemma not_space_digit: "is_digit c \<Longrightarrow> \<not> is_space c"
  by (auto simp: is_digit_def is_space_def)

lemma not_sign_digit: "is_digit c \<Longrightarrow> c \<noteq> CHR ''-'' \<and> c \<noteq> CHR ''+''"
  by (auto simp: is_digit_def)

lemma str_nat_digits: "str_nat n \<noteq> [] \<and> list_all is_digit (str_nat n)"
proof (induction n rule: str_nat.induct)
  case (1 n)
  show ?case
  proof (cases "n < 10")
    case True
    then show ?thesis by (simp add: str_nat.simps[of n] is_digit_char)
  next
    case False
    then show ?thesis using 1 by (simp add: str_nat.simps[of n] is_digit_char)
  qed
qed

lemma digits_val_snoc: "digits_val (ds @ [c]) = 10 * digits_val ds + digit_val c"
  by (simp add: digits_val_def)

lemma digits_val_str_nat: "digits_val (str_nat n) = n"
proof (induction n rule: str_nat.induct)
  case (1 n)
  show ?case
  proof (cases "n < 10")
    case True
    then show ?thesis by (simp add: str_nat.simps[of n] digits_val_def digit_val_char)
  next
    case False
    then have "digits_val (str_nat (n div 10)) = n div 10" using 1 by simp
    then show ?thesis using False
      by (simp add: str_nat.simps[of n] digits_val_snoc digit_val_char)
  qed
qed

lemma dropWhile_hd: "xs \<noteq> [] \<Longrightarrow> \<not> P (hd xs) \<Longrightarrow> dropWhile P xs = xs"
  by (cases xs) auto

lemma dropWhile_rev_last: "xs \<noteq> [] \<Longrightarrow> \<not> P (last xs) \<Longrightarrow> dropWhile P (rev xs) = rev xs"
  by (rule dropWhile_hd) (simp_all add: hd_rev)

lemma strip_clean:
  "s \<noteq> [] \<Longrightarrow> \<not> is_space (hd s) \<Longrightarrow> \<not> is_space (last s) \<Longrightarrow> strip s = s"
  by (simp add: strip_def dropWhile_hd dropWhile_rev_last)

lemma last_digit: "ds \<noteq> [] \<Longrightarrow> list_all is_digit ds \<Longrightarrow> is_digit (last ds)"
  by (metis last_in_set list_all_iff)

lemma hd_digit: "ds \<noteq> [] \<Longrightarrow> list_all is_digit ds \<Longrightarrow> is_digit (hd ds)"
  by (cases ds) auto

lemma ascii_int_str_int: "ascii_int (str_int n) = Some n"
proof (cases "n < 0")
  case False
  let ?s = "str_nat (nat n)"
  have ne: "?s \<noteq> []" and all: "list_all is_digit ?s"
    using str_nat_digits[of "nat n"] by auto
  obtain c r where cr: "?s = c # r" using ne by (cases ?s) auto
  have dig: "is_digit c" using all cr by simp
  have "strip ?s = ?s"
    using ne all by (simp add: strip_clean hd_digit last_digit not_space_digit)
  then show ?thesis
    using False cr all not_sign_digit[OF dig] digits_val_str_nat[of "nat n"]
    by (simp add: ascii_int_def str_int_def all_digits_def)
next
  case True
  let ?s = "str_nat (nat (- n))"
  have ne: "?s \<noteq> []" and all: "list_all is_digit ?s"
    using str_nat_digits[of "nat (- n)"] by auto
  have sp: "\<not> is_space CHR ''-''" by (simp add: is_space_def)
  have "\<not> is_space (last ?s)" using ne all by (simp add: last_digit not_space_digit)
  then have "strip (CHR ''-'' # ?s) = CHR ''-'' # ?s"
    using ne sp by (intro strip_clean) simp_all
  then show ?thesis
    using True ne all digits_val_str_nat[of "nat (- n)"]
    by (simp add: ascii_int_def str_int_def all_digits_def)
qed

lemma int_of_str_str_int: "int_of_str X (str_int n) = Inr n"
  by (simp add: int_of_str_def ascii_int_str_int)

subsection \<open>Custom parameters\<close>

lemma value_for_name_find:
  "value_for_name ps k
     = (case find (\<lambda>p. cp_name p = k) ps of None \<Rightarrow> VNone | Some p \<Rightarrow> cp_value p)"
  by (induction ps) auto

lemma value_for_name_absent: "k \<notin> cp_name ` set ps \<Longrightarrow> value_for_name ps k = VNone"
  by (induction ps) auto

lemma value_for_name_append_new:
  "k \<notin> cp_name ` set ps \<Longrightarrow> value_for_name (ps @ [\<lparr>cp_name = k, cp_value = v\<rparr>]) k = v"
  by (induction ps) auto

text \<open>
  Set-by-name with a name that no parameter has: the value is cast by the name's rule,
  one parameter is appended, and the lookup returns the cast value.
\<close>

lemma setitem_absent_name_appends:
  assumes "n \<notin> cp_name ` set ps" and "cast_value X n v = Inr v'"
  shows "CustomParameters_setitem X ps (KStr n) v = (Inr (), ps @ [\<lparr>cp_name = n, cp_value = v'\<rparr>])"
    and "value_for_name (snd (CustomParameters_setitem X ps (KStr n) v)) n = v'"
  using assms
  by (simp_all add: CustomParameters_setitem_def value_for_name_absent GSCustomParameter_init_def
      value_for_name_append_new)

text \<open>
  C2 (as amended). For a parameter whose name is in the integer-coded set, assigning a
  string that \<^verbatim>\<open>int\<close> accepts stores the integer that \<^verbatim>\<open>int\<close> returns, a read returns
  that integer, and rendering gives the \<^verbatim>\<open>{name = ...; value = ...;}\<close> form with the
  decimal text of the stored integer, unquoted. That text is accepted by \<^verbatim>\<open>int\<close> and
  gives the same integer, so it is the assigned text whenever the assigned text was the
  decimal text of an integer as \<^verbatim>\<open>str\<close> prints it; a leading \<^verbatim>\<open>+\<close>, leading zeros and
  surrounding blanks are not rendered back.
\<close>

theorem C2_integer_parameter_renders_decimal:
  assumes "cp_name p \<in> CUSTOM_INT_PARAMS" and "int_of_str X s = Inr n"
  shows "setValue X p (VStr s) = (Inr (), p\<lparr>cp_value := VInt n\<rparr>)
    \<and> getValue (snd (setValue X p (VStr s))) = VInt n
    \<and> plistValue X (snd (setValue X p (VStr s)))
        = Inr (''{\<newline>name = ''
               @ (if needsQuotes X (VStr (cp_name p)) then quoted (cp_name p) else cp_name p)
               @ '';\<newline>value = '' @ str_int n @ '';\<newline>}'')
    \<and> int_of_str X (str_int n) = Inr n"
proof -
  have a: "setValue X p (VStr s) = (Inr (), p\<lparr>cp_value := VInt n\<rparr>)"
    using assms by (simp add: setValue_def cast_value_def py_int_def)
  have b: "plistValue X (p\<lparr>cp_value := VInt n\<rparr>)
        = Inr (''{\<newline>name = ''
               @ (if needsQuotes X (VStr (cp_name p)) then quoted (cp_name p) else cp_name p)
               @ '';\<newline>value = '' @ str_int n @ '';\<newline>}'')"
    using assms(1) by (simp add: plistValue_def getValue_def py_str_def)
  show ?thesis using a b by (simp add: getValue_def int_of_str_str_int)
qed

theorem C2_integer_parameter_renders_decimal_witness:
  "getValue (snd (setValue bare_externals \<lparr>cp_name = ''unitsPerEm'', cp_value = VNone\<rparr> (VStr ''1000'')))
     = VInt 1000
   \<and> plistValue bare_externals
        (snd (setValue bare_externals \<lparr>cp_name = ''unitsPerEm'', cp_value = VNone\<rparr> (VStr ''1000'')))
     = Inr ''{\<newline>name = unitsPerEm;\<newline>value = 1000;\<newline>}''"
proof -
  have m: "cp_name \<lparr>cp_name = ''unitsPerEm'', cp_value = VNone\<rparr> \<in> CUSTOM_INT_PARAMS"
    by (simp add: CUSTOM_INT_PARAMS_def)
  have i: "int_of_str bare_externals ''1000'' = Inr 1000"
    by (simp add: int_of_str_def ascii_int_def strip_def is_space_def all_digits_def is_digit_def
        digits_val_def digit_val_def)
  have t: "str_int 1000 = ''1000''"
    by (simp add: str_int_def str_nat.simps digit_char_def)
  note r = C2_integer_parameter_renders_decimal [OF m i]
  have q: "needsQuotes bare_externals (VStr ''unitsPerEm'') = False"
    by (simp add: bare_externals_def)
  show ?thesis
    using r [THEN conjunct2, THEN conjunct1] r [THEN conjunct2, THEN conjunct2, THEN conjunct1]
    by (simp add: t q)
qed

text \<open>
  The claim as stated fails where the assigned text is not the text \<^verbatim>\<open>str\<close> prints:
  \<^verbatim>\<open>"007"\<close> is stored as 7 and rendered as \<^verbatim>\<open>7\<close>.
\<close>

theorem C2_leading_zeros_counterexample:
  "int_of_str bare_externals ''007'' = Inr 7
   \<and> plistValue bare_externals
        (snd (setValue bare_externals \<lparr>cp_name = ''unitsPerEm'', cp_value = VNone\<rparr> (VStr ''007'')))
       = Inr ''{\<newline>name = unitsPerEm;\<newline>value = 7;\<newline>}''
   \<and> plistValue bare_externals
        (snd (setValue bare_externals \<lparr>cp_name = ''unitsPerEm'', cp_value = VNone\<rparr> (VStr ''007'')))
       \<noteq> Inr ''{\<newline>name = unitsPerEm;\<newline>value = 007;\<newline>}''"
proof -
  have i: "int_of_str bare_externals ''007'' = Inr 7"
    by (simp add: int_of_str_def ascii_int_def strip_def is_space_def all_digits_def is_digit_def
        digits_val_def digit_val_def)
  have t: "str_int 7 = ''7''"
    by (simp add: str_int_def str_nat.simps digit_char_def)
  show ?thesis
    using i
    by (simp add: setValue_def cast_value_def py_int_def plistValue_def getValue_def py_str_def t
        CUSTOM_INT_PARAMS_def bare_externals_def)
qed

text \<open>
  C3. Set-by-name on a store that already holds a parameter of that name is meant to
  update that parameter. In the code \<^verbatim>\<open>__getitem__\<close> hands back the stored value, not
  the parameter, so \<^verbatim>\<open>Value.value = value\<close> is an attribute assignment on a plain value:
  it raises \<^verbatim>\<open>AttributeError\<close> and the store keeps the old value.
\<close>

theorem C3_setitem_existing_name_raises:
  assumes "value_for_name ps n \<noteq> VNone" and "\<not> accepts_attributes (value_for_name ps n)"
  shows "CustomParameters_setitem X ps (KStr n) v = (Inl AttributeError, ps)"
  using assms by (simp add: CustomParameters_setitem_def)

theorem C3_setitem_existing_name_raises_witness:
  "CustomParameters_setitem bare_externals [\<lparr>cp_name = ''unitsPerEm'', cp_value = VInt 1000\<rparr>]
       (KStr ''unitsPerEm'') (VInt 2000)
     = (Inl AttributeError, [\<lparr>cp_name = ''unitsPerEm'', cp_value = VInt 1000\<rparr>])
   \<and> CustomParameters_getitem
        (snd (CustomParameters_setitem bare_externals
               [\<lparr>cp_name = ''unitsPerEm'', cp_value = VInt 1000\<rparr>] (KStr ''unitsPerEm'') (VInt 2000)))
        (KStr ''unitsPerEm'')
     = Inr (ItemValue (VInt 1000))"
  using C3_setitem_existing_name_raises
    [of "[\<lparr>cp_name = ''unitsPerEm'', cp_value = VInt 1000\<rparr>]" "''unitsPerEm''" bare_externals
        "VInt 2000"]
  by (simp add: CustomParameters_getitem_def)

text \<open>
  C9. Indexing a custom-parameter store with a name returns the value of the first
  parameter of that name, and \<^verbatim>\<open>None\<close> when there is none; indexing with an integer
  position returns the parameter object at that position (negative positions count from
  the end, a position out of range raises \<^verbatim>\<open>IndexError\<close>).
\<close>

theorem C9_getitem_by_name_and_by_position:
  "CustomParameters_getitem ps (KStr n)
     = Inr (ItemValue (case find (\<lambda>p. cp_name p = n) ps of
                         None \<Rightarrow> VNone | Some p \<Rightarrow> cp_value p))
   \<and> (n \<notin> cp_name ` set ps \<longrightarrow> CustomParameters_getitem ps (KStr n) = Inr (ItemValue VNone))
   \<and> (0 \<le> i \<and> i < int (length ps) \<longrightarrow>
        CustomParameters_getitem ps (KInt i) = Inr (ItemParameter (ps ! nat i)))
   \<and> (- int (length ps) \<le> i \<and> i < 0 \<longrightarrow>
        CustomParameters_getitem ps (KInt i) = Inr (ItemParameter (ps ! nat (int (length ps) + i))))
   \<and> (i < - int (length ps) \<or> int (length ps) \<le> i \<longrightarrow>
        CustomParameters_getitem ps (KInt i) = Inl IndexError)"
proof -
  have a: "CustomParameters_getitem ps (KStr n)
     = Inr (ItemValue (case find (\<lambda>p. cp_name p = n) ps of
                         None \<Rightarrow> VNone | Some p \<Rightarrow> cp_value p))"
    by (simp add: CustomParameters_getitem_def value_for_name_find)
  have b: "n \<notin> cp_name ` set ps \<longrightarrow> CustomParameters_getitem ps (KStr n) = Inr (ItemValue VNone)"
    by (simp add: CustomParameters_getitem_def value_for_name_absent)
  have c: "(0 \<le> i \<and> i < int (length ps) \<longrightarrow>
        CustomParameters_getitem ps (KInt i) = Inr (ItemParameter (ps ! nat i)))
   \<and> (- int (length ps) \<le> i \<and> i < 0 \<longrightarrow>
        CustomParameters_getitem ps (KInt i) = Inr (ItemParameter (ps ! nat (int (length ps) + i))))
   \<and> (i < - int (length ps) \<or> int (length ps) \<le> i \<longrightarrow>
        CustomParameters_getitem ps (KInt i) = Inl IndexError)"
    by (auto simp: CustomParameters_getitem_def py_index_def Let_def)
  from a b c show ?thesis by blast
qed

theorem C9_getitem_by_name_and_by_position_witness:
  "CustomParameters_getitem
     [\<lparr>cp_name = ''unitsPerEm'', cp_value = VInt 1000\<rparr>, \<lparr>cp_name = ''note'', cp_value = VStr ''x''\<rparr>]
     (KStr ''note'') = Inr (ItemValue (VStr ''x''))
   \<and> CustomParameters_getitem
     [\<lparr>cp_name = ''unitsPerEm'', cp_value = VInt 1000\<rparr>, \<lparr>cp_name = ''note'', cp_value = VStr ''x''\<rparr>]
     (KStr ''year'') = Inr (ItemValue VNone)
   \<and> CustomParameters_getitem
     [\<lparr>cp_name = ''unitsPerEm'', cp_value = VInt 1000\<rparr>, \<lparr>cp_name = ''note'', cp_value = VStr ''x''\<rparr>]
     (KInt 1) = Inr (ItemParameter \<lparr>cp_name = ''note'', cp_value = VStr ''x''\<rparr>)
   \<and> CustomParameters_getitem
     [\<lparr>cp_name = ''unitsPerEm'', cp_value = VInt 1000\<rparr>, \<lparr>cp_name = ''note'', cp_value = VStr ''x''\<rparr>]
     (KInt (- 2)) = Inr (ItemParameter \<lparr>cp_name = ''unitsPerEm'', cp_value = VInt 1000\<rparr>)
   \<and> CustomParameters_getitem
     [\<lparr>cp_name = ''unitsPerEm'', cp_value = VInt 1000\<rparr>, \<lparr>cp_name = ''note'', cp_value = VStr ''x''\<rparr>]
     (KInt 2) = Inl IndexError"
  using C9_getitem_by_name_and_by_position
    [of "[\<lparr>cp_name = ''unitsPerEm'', cp_value = VInt 1000\<rparr>, \<lparr>cp_name = ''note'', cp_value = VStr ''x''\<rparr>]"
        "''note''" 1]
    C9_getitem_by_name_and_by_position
    [of "[\<lparr>cp_name = ''unitsPerEm'', cp_value = VInt 1000\<rparr>, \<lparr>cp_name = ''note'', cp_value = VStr ''x''\<rparr>]"
        "''year''" "- 2"]
    C9_getitem_by_name_and_by_position
    [of "[\<lparr>cp_name = ''unitsPerEm'', cp_value = VInt 1000\<rparr>, \<lparr>cp_name = ''note'', cp_value = VStr ''x''\<rparr>]"
        "''year''" 2]
  by simp

subsection \<open>Anchors\<close>

lemma replace_same_name_None:
  "replace_same_name owner anchors anchor = None \<longleftrightarrow> a_name anchor \<notin> a_name ` set anchors"
  by (induction anchors) auto

lemma replace_same_name_Some:
  "replace_same_name owner anchors anchor = Some anchors' \<Longrightarrow>
     \<exists>i < length anchors.
        a_name (anchors ! i) = a_name anchor
        \<and> (\<forall>j < i. a_name (anchors ! j) \<noteq> a_name anchor)
        \<and> anchors' = anchors[i := anchor\<lparr>a_parent := Some owner\<rparr>]"
proof (induction anchors arbitrary: anchors')
  case Nil
  then show ?case by simp
next
  case (Cons a rest)
  show ?case
  proof (cases "a_name a = a_name anchor")
    case True
    then have "anchors' = (a # rest)[0 := anchor\<lparr>a_parent := Some owner\<rparr>]"
      using Cons.prems by simp
    then show ?thesis using True by (intro exI[of _ 0]) simp
  next
    case False
    then obtain r where r: "replace_same_name owner rest anchor = Some r" and a': "anchors' = a # r"
      using Cons.prems by auto
    from Cons.IH[OF r] obtain i where i: "i < length rest"
      "a_name (rest ! i) = a_name anchor" "\<forall>j < i. a_name (rest ! j) \<noteq> a_name anchor"
      "r = rest[i := anchor\<lparr>a_parent := Some owner\<rparr>]" by blast
    have "\<forall>j < Suc i. a_name ((a # rest) ! j) \<noteq> a_name anchor"
      using False i(3) by (auto simp: nth_Cons split: nat.splits)
    then show ?thesis using i a' by (intro exI[of _ "Suc i"]) simp
  qed
qed

text \<open>
  Appending an anchor whose name some anchor of the layer has puts it, with its
  \<^verbatim>\<open>_parent\<close> set, in the place of the first such anchor; the count does not change.
\<close>

lemma append_same_name_replaces:
  assumes "a_name anchor \<in> a_name ` set anchors"
  shows "\<exists>i < length anchors.
           a_name (anchors ! i) = a_name anchor
           \<and> (\<forall>j < i. a_name (anchors ! j) \<noteq> a_name anchor)
           \<and> LayerAnchors_append owner anchors anchor
               = (Inr (), anchors[i := anchor\<lparr>a_parent := Some owner\<rparr>])"
proof -
  obtain anchors' where r: "replace_same_name owner anchors anchor = Some anchors'"
    using assms replace_same_name_None[of owner anchors anchor] by (cases "replace_same_name owner anchors anchor") auto
  from replace_same_name_Some[OF r] show ?thesis
    by (auto simp: LayerAnchors_append_def r)
qed

text \<open>Appending an anchor with a new, non-empty name adds it at the end.\<close>

lemma append_new_name_adds:
  "a_name anchor \<notin> a_name ` set anchors \<Longrightarrow> nonempty (a_name anchor) \<Longrightarrow>
     LayerAnchors_append owner anchors anchor = (Inr (), anchors @ [anchor])"
  using replace_same_name_None[of owner anchors anchor]
  by (simp add: LayerAnchors_append_def)

text \<open>
  Appending an anchor without a name is refused when no anchor of the layer has that
  (empty or missing) name.
\<close>

lemma append_unnamed_refused:
  "a_name anchor \<notin> a_name ` set anchors \<Longrightarrow> \<not> nonempty (a_name anchor) \<Longrightarrow>
     LayerAnchors_append owner anchors anchor = (Inl ValueError, anchors)"
  using replace_same_name_None[of owner anchors anchor]
  by (simp add: LayerAnchors_append_def)

text \<open>
  C4. Appending an anchor with no name must raise and leave the anchors as they were.
  The test of the name comes after the loop that replaces an anchor of equal name, and
  that loop returns: when the layer holds an anchor without a name (\<^verbatim>\<open>extend\<close>,
  \<^verbatim>\<open>insert\<close> and the bulk setter check no name), an appended anchor without a name
  replaces it and nothing is raised.
\<close>

theorem C4_append_unnamed_replaces_unnamed:
  assumes "\<not> nonempty (a_name anchor)" and "a_name a = a_name anchor"
  shows "LayerAnchors_append owner (a # rest) anchor
           = (Inr (), anchor\<lparr>a_parent := Some owner\<rparr> # rest)"
  using assms by (simp add: LayerAnchors_append_def)

theorem C4_append_unnamed_replaces_unnamed_witness:
  "LayerAnchors_append 1 [new_anchor\<lparr>a_position := VStr ''{0, 0}''\<rparr>]
       (new_anchor\<lparr>a_position := VStr ''{10, 20}''\<rparr>)
     = (Inr (), [\<lparr>a_name = Some [], a_position = VStr ''{10, 20}'', a_parent = Some 1\<rparr>])"
  using C4_append_unnamed_replaces_unnamed
    [of "new_anchor\<lparr>a_position := VStr ''{10, 20}''\<rparr>"
        "new_anchor\<lparr>a_position := VStr ''{0, 0}''\<rparr>" 1 "[]"]
  by (simp add: new_anchor_def nonempty_def)

subsection \<open>The master's name\<close>

lemma literal_0_01_positive [simp]: "\<not> literal_0_01 < 0"
  by (simp add: literal_0_01_def)

text \<open>A name that was read with success is cached, and the cache is never \<^verbatim>\<open>None\<close>.\<close>

lemma computed_name_not_None: "computed_name self = Inr v \<Longrightarrow> v \<noteq> VNone"
  by (auto simp: computed_name_def join_names_def Let_def split: if_splits)

lemma name_read_is_cached:
  assumes "GSFontMaster_name self = (Inr v, self')"
  shows "m_name self' = v" and "v \<noteq> VNone"
  using assms
  by (auto simp: GSFontMaster_name_def Let_def computed_name_not_None split: if_splits sum.splits)

text \<open>
  Once a name is cached, later reads return it whatever the weight, the width, the
  custom components and the angle have become.
\<close>

lemma cached_name_is_returned:
  "m_name self \<noteq> VNone \<Longrightarrow> GSFontMaster_name self = (Inr (m_name self), self)"
  by (simp add: GSFontMaster_name_def)

text \<open>
  C1. On the first read, with no cached name and no \<^verbatim>\<open>"Master Name"\<close> parameter, a
  master whose italic angle exceeds 0.01 in absolute value (the double that the literal
  \<^verbatim>\<open>0.01\<close> is) must get a name that ends in \<^verbatim>\<open>Italic\<close>. The code calls \<^verbatim>\<open>names.add("Italic")\<close> on a list: the read raises
  (\<^verbatim>\<open>AttributeError\<close>, or \<^verbatim>\<open>ValueError\<close> already from \<^verbatim>\<open>names.remove("Regular")\<close> when no
  component is \<^verbatim>\<open>"Regular"\<close>) and nothing is cached. The removal raises as well for an
  upright master none of whose components is \<^verbatim>\<open>"Regular"\<close>.
\<close>

theorem C1_italic_master_name_raises:
  assumes "m_name self = VNone"
    and "value_for_name (m_customParameters self) ''Master Name'' = VNone"
    and "\<bar>m_italicAngle self\<bar> > literal_0_01"
  shows "GSFontMaster_name self = (Inl AttributeError, self)
         \<or> GSFontMaster_name self = (Inl ValueError, self)"
  using assms by (simp add: GSFontMaster_name_def computed_name_def Let_def)

theorem C1_italic_master_name_raises_witness:
  "GSFontMaster_name (new_master\<lparr>m_italicAngle := 12\<rparr>)
     = (Inl AttributeError, new_master\<lparr>m_italicAngle := 12\<rparr>)
   \<and> GSFontMaster_name (new_master\<lparr>m_weight := Some ''Bold'', m_width := Some ''Condensed''\<rparr>)
     = (Inl ValueError, new_master\<lparr>m_weight := Some ''Bold'', m_width := Some ''Condensed''\<rparr>)
   \<and> fst (GSFontMaster_name (new_master\<lparr>m_weight := Some ''Bold''\<rparr>)) = Inr (VStr ''Bold'')
   \<and> fst (GSFontMaster_name (new_master\<lparr>m_italicAngle := literal_0_01\<rparr>))
       = Inr (VStr ''Regular'')"
proof -
  have a: "m_name (new_master\<lparr>m_italicAngle := 12\<rparr>) = VNone"
    and b: "value_for_name (m_customParameters (new_master\<lparr>m_italicAngle := 12\<rparr>)) ''Master Name''
              = VNone"
    and c: "\<bar>m_italicAngle (new_master\<lparr>m_italicAngle := 12\<rparr>)\<bar> > literal_0_01"
    by (simp_all add: new_master_def literal_0_01_def)
  have v: "GSFontMaster_name (new_master\<lparr>m_italicAngle := 12\<rparr>)
             \<noteq> (Inl ValueError, new_master\<lparr>m_italicAngle := 12\<rparr>)"
    by (simp add: GSFontMaster_name_def computed_name_def add_custom_def nonempty_def new_master_def
        literal_0_01_def)
  have i: "GSFontMaster_name (new_master\<lparr>m_italicAngle := 12\<rparr>)
     = (Inl AttributeError, new_master\<lparr>m_italicAngle := 12\<rparr>)"
    using C1_italic_master_name_raises [OF a b c] v by blast
  have r: "GSFontMaster_name (new_master\<lparr>m_weight := Some ''Bold'', m_width := Some ''Condensed''\<rparr>)
     = (Inl ValueError, new_master\<lparr>m_weight := Some ''Bold'', m_width := Some ''Condensed''\<rparr>)"
    by (simp add: GSFontMaster_name_def computed_name_def add_custom_def nonempty_def new_master_def
        literal_0_01_def)
  have k: "fst (GSFontMaster_name (new_master\<lparr>m_weight := Some ''Bold''\<rparr>)) = Inr (VStr ''Bold'')"
    by (simp add: GSFontMaster_name_def computed_name_def add_custom_def nonempty_def new_master_def
        join_names_def literal_0_01_def)
  have e: "fst (GSFontMaster_name (new_master\<lparr>m_italicAngle := literal_0_01\<rparr>))
       = Inr (VStr ''Regular'')"
    by (simp add: GSFontMaster_name_def computed_name_def add_custom_def nonempty_def new_master_def
        join_names_def literal_0_01_def)
  from i r k e show ?thesis by blast
qed

subsection \<open>The layer's name\<close>

lemma masterForId_same_id:
  "m_id M' = m_id (masters s m) \<Longrightarrow>
     masterForId (s\<lparr>masters := (masters s)(m := M')\<rparr>) f k = masterForId s f k"
proof -
  assume a: "m_id M' = m_id (masters s m)"
  have "(\<lambda>a. m_id (((masters s)(m := M')) a) = k) = (\<lambda>a. m_id (masters s a) = k)"
    using a by (auto simp: fun_eq_iff)
  then show ?thesis by (simp add: masterForId_def)
qed

lemma layer_name_of_master_layer:
  assumes "nonempty (l_associatedMasterId (layers s l))"
    and "l_associatedMasterId (layers s l) = l_layerId (layers s l)"
    and "l_parent (layers s l) = Parent g" and "g_parent (glyphs s g) = Some f"
    and "masterForId s f (l_layerId (layers s l)) = Some m"
  shows "GSLayer_name s l
           = (fst (GSFontMaster_name (masters s m)),
              s\<lparr>masters := (masters s)(m := snd (GSFontMaster_name (masters s m)))\<rparr>)"
  using assms by (simp add: GSLayer_name_def Let_def)

lemma layer_name_of_other_layer:
  assumes "\<not> nonempty (l_associatedMasterId (layers s l))
           \<or> l_associatedMasterId (layers s l) \<noteq> l_layerId (layers s l)"
  shows "GSLayer_name s l = (Inr (l_name (layers s l)), s)"
  using assms by (auto simp: GSLayer_name_def Let_def)

lemma layer_name_without_master:
  assumes "l_parent (layers s l) = Parent g" and "g_parent (glyphs s g) = Some f"
    and "masterForId s f (l_associatedMasterId (layers s l)) = None"
  shows "GSLayer_name s l = (Inr (l_name (layers s l)), s)"
  using assms by (auto simp: GSLayer_name_def Let_def)

text \<open>
  C5 (as amended). A layer whose \<^verbatim>\<open>associatedMasterId\<close> is not empty and equals its
  \<^verbatim>\<open>layerId\<close>, whose glyph belongs to a font that has a master with that id, reports
  what a read of that master's \<^verbatim>\<open>name\<close> gives now; the read does not touch the layer,
  and with another state of that master (same id) the layer reports that state's name.
  A layer whose \<^verbatim>\<open>associatedMasterId\<close> is empty or \<^verbatim>\<open>None\<close> or differs from its
  \<^verbatim>\<open>layerId\<close>, and a layer whose glyph's font has no master with that id, report the
  layer's own stored name.
\<close>

theorem C5_master_layer_reports_master_name:
  "(nonempty (l_associatedMasterId (layers s l))
      \<and> l_associatedMasterId (layers s l) = l_layerId (layers s l)
      \<and> l_parent (layers s l) = Parent g \<and> g_parent (glyphs s g) = Some f
      \<and> masterForId s f (l_layerId (layers s l)) = Some m
    \<longrightarrow> fst (GSLayer_name s l) = fst (GSFontMaster_name (masters s m))
        \<and> layers (snd (GSLayer_name s l)) = layers s
        \<and> (m_id M' = m_id (masters s m) \<longrightarrow>
             fst (GSLayer_name (s\<lparr>masters := (masters s)(m := M')\<rparr>) l)
               = fst (GSFontMaster_name M')))
   \<and> (\<not> nonempty (l_associatedMasterId (layers s l))
        \<or> l_associatedMasterId (layers s l) \<noteq> l_layerId (layers s l)
      \<longrightarrow> GSLayer_name s l = (Inr (l_name (layers s l)), s))
   \<and> (l_parent (layers s l) = Parent g \<and> g_parent (glyphs s g) = Some f
        \<and> masterForId s f (l_associatedMasterId (layers s l)) = None
      \<longrightarrow> GSLayer_name s l = (Inr (l_name (layers s l)), s))"
proof (intro conjI impI)
  assume h: "nonempty (l_associatedMasterId (layers s l))
      \<and> l_associatedMasterId (layers s l) = l_layerId (layers s l)
      \<and> l_parent (layers s l) = Parent g \<and> g_parent (glyphs s g) = Some f
      \<and> masterForId s f (l_layerId (layers s l)) = Some m"
  then have h1: "nonempty (l_associatedMasterId (layers s l))"
    and h2: "l_associatedMasterId (layers s l) = l_layerId (layers s l)"
    and h3: "l_parent (layers s l) = Parent g" and h4: "g_parent (glyphs s g) = Some f"
    and h5: "masterForId s f (l_layerId (layers s l)) = Some m"
    by blast+
  note e = layer_name_of_master_layer[OF h1 h2 h3 h4 h5]
  show "fst (GSLayer_name s l) = fst (GSFontMaster_name (masters s m))"
    by (simp add: e)
  show "layers (snd (GSLayer_name s l)) = layers s"
    by (simp add: e)
  assume i: "m_id M' = m_id (masters s m)"
  let ?s = "s\<lparr>masters := (masters s)(m := M')\<rparr>"
  have "masterForId ?s f (l_layerId (layers ?s l)) = Some m"
    using h5 masterForId_same_id[OF i] by simp
  then have "GSLayer_name ?s l
           = (fst (GSFontMaster_name (masters ?s m)),
              ?s\<lparr>masters := (masters ?s)(m := snd (GSFontMaster_name (masters ?s m)))\<rparr>)"
    using h1 h2 h3 h4 by (intro layer_name_of_master_layer) simp_all
  then show "fst (GSLayer_name ?s l) = fst (GSFontMaster_name M')"
    by simp
next
  assume "\<not> nonempty (l_associatedMasterId (layers s l))
        \<or> l_associatedMasterId (layers s l) \<noteq> l_layerId (layers s l)"
  then show "GSLayer_name s l = (Inr (l_name (layers s l)), s)"
    by (rule layer_name_of_other_layer)
next
  assume "l_parent (layers s l) = Parent g \<and> g_parent (glyphs s g) = Some f
        \<and> masterForId s f (l_associatedMasterId (layers s l)) = None"
  then show "GSLayer_name s l = (Inr (l_name (layers s l)), s)"
    using layer_name_without_master by blast
qed

lemma bold_name: "fst (GSFontMaster_name (new_master\<lparr>m_id := Some ''M1'', m_weight := Some ''Bold''\<rparr>)) = Inr (VStr ''Bold'')"
  by (simp add: GSFontMaster_name_def computed_name_def add_custom_def nonempty_def new_master_def join_names_def)

lemma light_name: "fst (GSFontMaster_name (new_master\<lparr>m_id := Some ''M1'', m_weight := Some ''Light''\<rparr>)) = Inr (VStr ''Light'')"
  by (simp add: GSFontMaster_name_def computed_name_def add_custom_def nonempty_def new_master_def join_names_def)

theorem C5_master_layer_reports_master_name_witness:
  "fst (GSLayer_name bold_font_store 0) = Inr (VStr ''Bold'')
   \<and> layers (snd (GSLayer_name bold_font_store 0)) = layers bold_font_store
   \<and> fst (GSLayer_name
        (bold_font_store\<lparr>masters := (masters bold_font_store)
            (0 := new_master\<lparr>m_id := Some ''M1'', m_weight := Some ''Light''\<rparr>)\<rparr>) 0)
       = Inr (VStr ''Light'')
   \<and> GSLayer_name (bold_font_store\<lparr>layers := (layers bold_font_store)
          (0 := (layers bold_font_store 0)\<lparr>l_layerId := Some ''brace''\<rparr>)\<rparr>) 0
       = (Inr (VStr ''Regular''),
          bold_font_store\<lparr>layers := (layers bold_font_store)
          (0 := (layers bold_font_store 0)\<lparr>l_layerId := Some ''brace''\<rparr>)\<rparr>)"
proof -
  have h: "nonempty (l_associatedMasterId (layers bold_font_store 0))
      \<and> l_associatedMasterId (layers bold_font_store 0) = l_layerId (layers bold_font_store 0)
      \<and> l_parent (layers bold_font_store 0) = Parent 0 \<and> g_parent (glyphs bold_font_store 0) = Some 0
      \<and> masterForId bold_font_store 0 (l_layerId (layers bold_font_store 0)) = Some 0"
    by (simp add: bold_font_store_def example_store_def new_layer_def new_font_def new_master_def
        nonempty_def masterForId_def)
  have m: "masters bold_font_store 0 = new_master\<lparr>m_id := Some ''M1'', m_weight := Some ''Bold''\<rparr>"
    by (simp add: bold_font_store_def example_store_def)
  have i: "m_id (new_master\<lparr>m_id := Some ''M1'', m_weight := Some ''Light''\<rparr>) = m_id (masters bold_font_store 0)"
    by (simp add: m)
  note r = C5_master_layer_reports_master_name
    [of bold_font_store 0 0 0 0 "new_master\<lparr>m_id := Some ''M1'', m_weight := Some ''Light''\<rparr>"]
  note q = r [THEN conjunct1, THEN mp, OF h]
  have r1: "fst (GSLayer_name bold_font_store 0) = Inr (VStr ''Bold'')"
    using q [THEN conjunct1] by (simp add: m bold_name)
  have r2: "layers (snd (GSLayer_name bold_font_store 0)) = layers bold_font_store"
    using q [THEN conjunct2, THEN conjunct1] .
  have r3: "fst (GSLayer_name
        (bold_font_store\<lparr>masters := (masters bold_font_store)
            (0 := new_master\<lparr>m_id := Some ''M1'', m_weight := Some ''Light''\<rparr>)\<rparr>) 0)
       = Inr (VStr ''Light'')"
    using q [THEN conjunct2, THEN conjunct2, THEN mp, OF i] by (simp add: light_name)
  have r4: "GSLayer_name (bold_font_store\<lparr>layers := (layers bold_font_store)
          (0 := (layers bold_font_store 0)\<lparr>l_layerId := Some ''brace''\<rparr>)\<rparr>) 0
       = (Inr (VStr ''Regular''),
          bold_font_store\<lparr>layers := (layers bold_font_store)
          (0 := (layers bold_font_store 0)\<lparr>l_layerId := Some ''brace''\<rparr>)\<rparr>)"
    by (simp add: GSLayer_name_def bold_font_store_def example_store_def new_layer_def nonempty_def)
  from r1 r2 r3 r4 show ?thesis by blast
qed

text \<open>
  The claim as stated fails for the empty id, which is what \<^verbatim>\<open>GSFontMaster()\<close> and
  \<^verbatim>\<open>GSLayer()\<close> start with: the first test of the property is the truth value of
  \<^verbatim>\<open>associatedMasterId\<close>, so the layer reports its stored name although its two ids are
  equal and the font has a master with that id.
\<close>

theorem C5_empty_ids_counterexample:
  "l_layerId (layers unnamed_ids_store 0) = l_associatedMasterId (layers unnamed_ids_store 0)
   \<and> l_parent (layers unnamed_ids_store 0) = Parent 0
   \<and> g_parent (glyphs unnamed_ids_store 0) = Some 0
   \<and> masterForId unnamed_ids_store 0 (l_layerId (layers unnamed_ids_store 0)) = Some 0
   \<and> fst (GSFontMaster_name (masters unnamed_ids_store 0)) = Inr (VStr ''Bold'')
   \<and> fst (GSLayer_name unnamed_ids_store 0) = Inr (VStr ''Regular'')"
  by (simp add: unnamed_ids_store_def example_store_def new_layer_def new_font_def new_master_def
      nonempty_def masterForId_def GSLayer_name_def GSFontMaster_name_def)


subsection \<open>Replacing a glyph's layers\<close>

lemma masterForId_layers [simp]: "masterForId (s\<lparr>layers := x\<rparr>) f k = masterForId s f k"
  by (simp add: masterForId_def)

lemma setupLayer_eq:
  "setupLayer s g l k = s\<lparr>layers := (layers s)(l := set_up s g k (layers s l))\<rparr>"
  by (auto simp: setupLayer_def set_up_def names_master_def Let_def split: option.splits)

text \<open>The setter on one layer, and on two layers that have the same \<^verbatim>\<open>layerId\<close>.\<close>

lemma setter_one_layer:
  "GlyphLayerProxy_setter s g (ArgList [a])
     = (Inr (),
        s\<lparr>layers := (layers s)(a := set_up s g (l_layerId (layers s a)) (layers s a)),
          glyphs := (glyphs s)(g := (glyphs s g)\<lparr>g_layers := [(l_layerId (layers s a), a)]\<rparr>)\<rparr>)"
  by (simp add: GlyphLayerProxy_setter_def iterated_layers_def setupLayer_eq)

lemma setter_two_layers_one_id:
  assumes "l_layerId (layers s a) = l_layerId (layers s b)"
  shows "GlyphLayerProxy_setter s g (ArgList [a, b])
     = (Inr (),
        s\<lparr>layers := (layers s)(b := set_up s g (l_layerId (layers s b)) (layers s b)),
          glyphs := (glyphs s)(g := (glyphs s g)\<lparr>g_layers := [(l_layerId (layers s b), b)]\<rparr>)\<rparr>)"
  using assms by (simp add: GlyphLayerProxy_setter_def iterated_layers_def setupLayer_eq)

text \<open>
  C7. Bulk replacement must give every supplied layer what an individual \<^verbatim>\<open>append\<close>
  gives it. \<^verbatim>\<open>append\<close> first gives a layer without \<^verbatim>\<open>associatedMasterId\<close> the id of
  the font's first master and a layer without \<^verbatim>\<open>layerId\<close> a fresh \<^verbatim>\<open>uuid.uuid4()\<close>, and
  only then calls \<^verbatim>\<open>_setupLayer\<close> and stores the layer under its id, so every appended
  layer is kept. The setter has no such step: it stores each layer under the
  \<^verbatim>\<open>layerId\<close> it arrives with. A single layer keeps its \<^verbatim>\<open>layerId\<close>, empty or not, and
  its \<^verbatim>\<open>associatedMasterId\<close> unless that id names a master; of two layers with the same
  id, as two layers fresh from \<^verbatim>\<open>GSLayer()\<close> are, only the second is kept: the first is
  left as it was, without \<^verbatim>\<open>parent\<close>, position 0 holds the second layer and position 1
  is out of range.
\<close>

theorem C7_setter_synthesises_no_id:
  "l_layerId (layers (snd (GlyphLayerProxy_setter s g (ArgList [a]))) a) = l_layerId (layers s a)
   \<and> (\<not> names_master s g (l_layerId (layers s a)) \<longrightarrow>
        l_associatedMasterId (layers (snd (GlyphLayerProxy_setter s g (ArgList [a]))) a)
          = l_associatedMasterId (layers s a))
   \<and> (a \<noteq> b \<and> l_layerId (layers s a) = l_layerId (layers s b) \<longrightarrow>
        g_layers (glyphs (snd (GlyphLayerProxy_setter s g (ArgList [a, b]))) g)
          = [(l_layerId (layers s b), b)]
        \<and> layers (snd (GlyphLayerProxy_setter s g (ArgList [a, b]))) a = layers s a
        \<and> GlyphLayerProxy_getitem (snd (GlyphLayerProxy_setter s g (ArgList [a, b]))) g 0 = Inr b
        \<and> GlyphLayerProxy_getitem (snd (GlyphLayerProxy_setter s g (ArgList [a, b]))) g 1
            = Inl IndexError)"
proof (intro conjI impI)
  show "l_layerId (layers (snd (GlyphLayerProxy_setter s g (ArgList [a]))) a)
          = l_layerId (layers s a)"
    by (simp add: setter_one_layer set_up_def)
next
  assume "\<not> names_master s g (l_layerId (layers s a))"
  then show "l_associatedMasterId (layers (snd (GlyphLayerProxy_setter s g (ArgList [a]))) a)
          = l_associatedMasterId (layers s a)"
    by (simp add: setter_one_layer set_up_def)
next
  assume h: "a \<noteq> b \<and> l_layerId (layers s a) = l_layerId (layers s b)"
  then have e: "l_layerId (layers s a) = l_layerId (layers s b)" and d: "a \<noteq> b"
    by blast+
  note t = setter_two_layers_one_id [OF e, of g]
  show "g_layers (glyphs (snd (GlyphLayerProxy_setter s g (ArgList [a, b]))) g)
          = [(l_layerId (layers s b), b)]"
    by (simp add: t)
  show "layers (snd (GlyphLayerProxy_setter s g (ArgList [a, b]))) a = layers s a"
    using d by (simp add: t)
  show "GlyphLayerProxy_getitem (snd (GlyphLayerProxy_setter s g (ArgList [a, b]))) g 0 = Inr b"
    by (simp add: t GlyphLayerProxy_getitem_def py_index_def)
  show "GlyphLayerProxy_getitem (snd (GlyphLayerProxy_setter s g (ArgList [a, b]))) g 1
          = Inl IndexError"
    by (simp add: t GlyphLayerProxy_getitem_def py_index_def)
qed

theorem C7_setter_synthesises_no_id_witness:
  "l_layerId (layers (snd (GlyphLayerProxy_setter fresh_layers_store 0 (ArgList [2]))) 2) = Some []
   \<and> l_associatedMasterId (layers (snd (GlyphLayerProxy_setter fresh_layers_store 0 (ArgList [2]))) 2)
       = Some []
   \<and> g_layers (glyphs (snd (GlyphLayerProxy_setter fresh_layers_store 0 (ArgList [2, 3]))) 0)
       = [(Some [], 3)]
   \<and> l_parent (layers (snd (GlyphLayerProxy_setter fresh_layers_store 0 (ArgList [2, 3]))) 2)
       = NoAttribute
   \<and> GlyphLayerProxy_getitem (snd (GlyphLayerProxy_setter fresh_layers_store 0 (ArgList [2, 3]))) 0 0
       = Inr 3
   \<and> GlyphLayerProxy_getitem (snd (GlyphLayerProxy_setter fresh_layers_store 0 (ArgList [2, 3]))) 0 1
       = Inl IndexError"
proof -
  have l2: "layers fresh_layers_store 2 = new_layer" and l3: "layers fresh_layers_store 3 = new_layer"
    by (simp_all add: fresh_layers_store_def example_store_def)
  have n: "\<not> names_master fresh_layers_store 0 (l_layerId (layers fresh_layers_store 2))"
    by (simp add: names_master_def masterForId_def fresh_layers_store_def example_store_def
        new_layer_def new_glyph_def new_font_def new_master_def)
  have h: "(2::nat) \<noteq> 3
           \<and> l_layerId (layers fresh_layers_store 2) = l_layerId (layers fresh_layers_store 3)"
    by (simp add: l2 l3)
  note r = C7_setter_synthesises_no_id [of fresh_layers_store 0 2 3]
  note q = r [THEN conjunct2, THEN conjunct2, THEN mp, OF h]
  have a: "l_layerId (layers (snd (GlyphLayerProxy_setter fresh_layers_store 0 (ArgList [2]))) 2)
             = Some []"
    using r [THEN conjunct1] by (simp add: l2 new_layer_def)
  have b: "l_associatedMasterId
             (layers (snd (GlyphLayerProxy_setter fresh_layers_store 0 (ArgList [2]))) 2) = Some []"
    using r [THEN conjunct2, THEN conjunct1, THEN mp, OF n] by (simp add: l2 new_layer_def)
  have c: "g_layers (glyphs (snd (GlyphLayerProxy_setter fresh_layers_store 0 (ArgList [2, 3]))) 0)
             = [(Some [], 3)]"
    using q [THEN conjunct1] by (simp add: l3 new_layer_def)
  have d: "l_parent (layers (snd (GlyphLayerProxy_setter fresh_layers_store 0 (ArgList [2, 3]))) 2)
             = NoAttribute"
    using q [THEN conjunct2, THEN conjunct1] by (simp add: l2 new_layer_def)
  from a b c d q [THEN conjunct2, THEN conjunct2] show ?thesis by blast
qed

subsection \<open>The serialization policy\<close>








text \<open>
  A read that raises, or a key that the class table lacks, makes the base method raise:
  so it is for the declared field \<^verbatim>\<open>guideLines\<close> of a layer fresh from \<^verbatim>\<open>GSLayer()\<close>,
  which is read under the name \<^verbatim>\<open>guides\<close>.
\<close>

lemma base_read_raises:
  "getattr (translated C k) = Inl e \<Longrightarrow> GSBase_shouldWriteValueForKey X C getattr k = Inl e"
  by (simp add: GSBase_shouldWriteValueForKey_def)

lemma base_undeclared_key:
  "getattr (translated C k) = Inr v \<Longrightarrow> map_of (classesForName C) k = None \<Longrightarrow>
     GSBase_shouldWriteValueForKey X C getattr k = Inl KeyError"
  by (simp add: GSBase_shouldWriteValueForKey_def)

lemma fresh_layer_guideLines:
  "GSLayer_shouldWriteValueForKey X example_store 0 ''guideLines'' = Inl AttributeError"
proof -
  have n: "\<not> sublist ''guideLines'' ''width''"
    using sublist_length_le[of "''guideLines''" "''width''"] by auto
  have r: "GSLayer_getattr example_store 0 (translated GSLayer_tables ''guideLines'')
             = Inl AttributeError"
    by (simp add: GSLayer_getattr_def translated_def GSLayer_tables_def example_store_def
        new_layer_def getattr_of_def)
  show ?thesis
    using base_read_raises
      [of "GSLayer_getattr example_store 0" GSLayer_tables "''guideLines''" AttributeError X, OF r]
    by (simp add: GSLayer_shouldWriteValueForKey_def n)
qed










text \<open>
  C10. For every layer, \<^verbatim>\<open>name\<close> and \<^verbatim>\<open>associatedMasterId\<close> are omitted exactly when
  the layer's \<^verbatim>\<open>layerId\<close> equals its \<^verbatim>\<open>associatedMasterId\<close>, and both are written for
  every other layer, whatever the two fields hold.
\<close>

theorem C10_layer_name_and_master_id:
  "GSLayer_shouldWriteValueForKey X s l ''name''
     = Inr (l_layerId (layers s l) \<noteq> l_associatedMasterId (layers s l))
   \<and> GSLayer_shouldWriteValueForKey X s l ''associatedMasterId''
     = Inr (l_layerId (layers s l) \<noteq> l_associatedMasterId (layers s l))
   \<and> (l_layerId (layers s l) = l_associatedMasterId (layers s l) \<longrightarrow>
        GSLayer_shouldWriteValueForKey X s l ''name'' = Inr False
        \<and> GSLayer_shouldWriteValueForKey X s l ''associatedMasterId'' = Inr False)
   \<and> (l_layerId (layers s l) \<noteq> l_associatedMasterId (layers s l) \<longrightarrow>
        GSLayer_shouldWriteValueForKey X s l ''name'' = Inr True
        \<and> GSLayer_shouldWriteValueForKey X s l ''associatedMasterId'' = Inr True)"
  by (simp add: GSLayer_shouldWriteValueForKey_def)

theorem C10_layer_name_and_master_id_witness:
  "GSLayer_shouldWriteValueForKey bare_externals bold_font_store 0 ''name'' = Inr False
   \<and> GSLayer_shouldWriteValueForKey bare_externals bold_font_store 0 ''associatedMasterId'' = Inr False
   \<and> GSLayer_shouldWriteValueForKey bare_externals two_layer_store 3 ''name'' = Inr True
   \<and> GSLayer_shouldWriteValueForKey bare_externals two_layer_store 3 ''associatedMasterId'' = Inr True"
proof -
  have e: "l_layerId (layers bold_font_store 0) = l_associatedMasterId (layers bold_font_store 0)"
    by (simp add: bold_font_store_def example_store_def new_layer_def)
  have d: "l_layerId (layers two_layer_store 3) \<noteq> l_associatedMasterId (layers two_layer_store 3)"
    by (simp add: two_layer_store_def example_store_def new_layer_def)
  note r = C10_layer_name_and_master_id [of bare_externals bold_font_store 0]
  note t = C10_layer_name_and_master_id [of bare_externals two_layer_store 3]
  from r [THEN conjunct2, THEN conjunct2, THEN conjunct1, THEN mp, OF e]
       t [THEN conjunct2, THEN conjunct2, THEN conjunct2, THEN mp, OF d]
  show ?thesis by blast
qed


end
